theory Spec2Isabelle
  imports Main "HOL-Library.Sublist"
begin

section \<open>JavaScript strings\<close>

text \<open>
  A JavaScript string is a sequence of UTF-16 code units. The model uses \<^typ>\<open>string\<close>
  and reads a \<^typ>\<open>char\<close> as a code unit below 256, so the white space and line
  terminators of ECMAScript that \<open>String.prototype.trim\<close> strips are, in that range:
  TAB, LF, VT, FF, CR, SPACE and NBSP.
\<close>

definition isWhiteSpace :: "char \<Rightarrow> bool" where
  "isWhiteSpace c \<longleftrightarrow>
     c \<in> {CHR 0x09, CHR 0x0A, CHR 0x0B, CHR 0x0C, CHR 0x0D, CHR 0x20, CHR 0xA0}"

text \<open>\<open>s.trim()\<close>: white space is removed from both ends, never from the middle.\<close>

definition trim :: "string \<Rightarrow> string" where
  "trim s = rev (dropWhile isWhiteSpace (rev (dropWhile isWhiteSpace s)))"

text \<open>
  \<open>s.replace(pattern, replacement)\<close> with a string pattern: only the first
  occurrence is replaced, and the replacement text is expanded by GetSubstitution.
  With a string pattern there are no captures, so the only special sequences are
  \<open>$$\<close>, \<open>$&\<close>, \<open>$`\<close> and \<open>$'\<close>; every other character (also \<open>$1\<close> and
  \<open>$<\<close>) is copied.
\<close>

fun splitAtFirst :: "string \<Rightarrow> string \<Rightarrow> (string \<times> string) option" where
  "splitAtFirst pat [] = (if pat = [] then Some ([], []) else None)"
| "splitAtFirst pat (c # s) =
     (if prefix pat (c # s) then Some ([], drop (length pat) (c # s))
      else (case splitAtFirst pat s of
              None \<Rightarrow> None
            | Some (preceding, following) \<Rightarrow> Some (c # preceding, following)))"

fun getSubstitution :: "string \<Rightarrow> string \<Rightarrow> string \<Rightarrow> string \<Rightarrow> string" where
  "getSubstitution matched preceding following [] = []"
| "getSubstitution matched preceding following [c] = [c]"
| "getSubstitution matched preceding following (c # d # templ) =
     (if c = CHR ''$'' \<and> d = CHR ''$''
        then CHR ''$'' # getSubstitution matched preceding following templ
      else if c = CHR ''$'' \<and> d = CHR ''&''
        then matched @ getSubstitution matched preceding following templ
      else if c = CHR ''$'' \<and> d = CHR 0x60
        then preceding @ getSubstitution matched preceding following templ
      else if c = CHR ''$'' \<and> d = CHR 0x27
        then following @ getSubstitution matched preceding following templ
      else c # getSubstitution matched preceding following (d # templ))"

definition replace :: "string \<Rightarrow> string \<Rightarrow> string \<Rightarrow> string" where
  "replace s pat replacement =
     (case splitAtFirst pat s of
        None \<Rightarrow> s
      | Some (preceding, following) \<Rightarrow>
          preceding @ getSubstitution pat preceding following replacement @ following)"

text \<open>\<open>String(v)\<close> of a value that may be \<open>undefined\<close>.\<close>

definition toString :: "string option \<Rightarrow> string" where
  "toString v = (case v of None \<Rightarrow> ''undefined'' | Some s \<Rightarrow> s)"

text \<open>Truthiness of an optional string: \<open>undefined\<close> and \<open>''\<close> are falsy.\<close>

definition truthy :: "string option \<Rightarrow> bool" where
  "truthy v = (case v of None \<Rightarrow> False | Some s \<Rightarrow> s \<noteq> [])"

section \<open>Data model of the provider\<close>

datatype ContainerAccessType = Private | Blob | Container

text \<open>
  \<open>type Config\<close> of \<open>src/index.ts\<close>. Fields marked \<open>?\<close> in the source are options.
\<close>

record Config =
  account :: string
  accountKey :: string
  serviceBaseURL :: "string option"
  containerName :: string
  defaultPath :: string
  cdnBaseURL :: "string option"
  createContainerIfNotExists :: "bool option"

text \<open>
  \<open>type Config\<close> of the second source file (the variant that signs at upload):
  the fields above and \<open>containerAccessType?\<close>.
\<close>

record Config_001 = Config +
  containerAccessType :: "ContainerAccessType option"

text \<open>
  The configuration object as the host hands it to \<open>init\<close>: a plain object on which any
  property can be missing (\<open>undefined\<close>), which is what the \<open>typeof\<close> test of
  \<open>trimParam\<close> and the \<open>=== undefined\<close> test of \<open>init\<close> are for. The settings are those
  the \<open>auth\<close> table of both source files lists.
\<close>

record RawConfig =
  raw_account :: "string option"
  raw_accountKey :: "string option"
  raw_serviceBaseURL :: "string option"
  raw_containerName :: "string option"
  raw_defaultPath :: "string option"
  raw_cdnBaseURL :: "string option"
  raw_createContainerIfNotExists :: "bool option"
  raw_containerAccessType :: "ContainerAccessType option"

text \<open>\<open>type StrapiFile\<close>; the content stream is the list of its bytes.\<close>

record StrapiFile =
  stream :: string
  hash :: string
  url :: string
  ext :: string
  mime :: string
  path :: string

section \<open>Object keys\<close>

definition trimParam :: "string option \<Rightarrow> string" where
  "trimParam input = (case input of Some s \<Rightarrow> trim s | None \<Rightarrow> [])"

definition getFileName :: "string \<Rightarrow> StrapiFile \<Rightarrow> string" where
  "getFileName p file = trimParam (Some p) @ ''/'' @ hash file @ ext file"

section \<open>The storage SDK and the remote account\<close>

text \<open>
  The adapter calls the \<open>@azure/storage-blob\<close> package, which is not part of the
  repository. What the package computes locally (the URL of a blob, a shared-access
  signature URL) is a parameter of the model: the record \<open>AzureSDK\<close>. What it does
  remotely is a transition of \<open>World\<close>, the storage account together with the clock
  and the time zone of the JavaScript runtime.
\<close>

datatype PublicAccessType = PublicBlob | PublicContainer

datatype SASPermission = Read | Add | Create | Write | Delete

type_synonym Date = int \<comment> \<open>the time value: milliseconds since the epoch\<close>

record BlobGenerateSasUrlOptions =
  permissions :: "SASPermission set"
  expiresOn :: Date

record StorageSharedKeyCredential =
  accountName :: string
  sharedKey :: string

record AzureSDK =
  blobUrlOf :: "string option \<Rightarrow> string \<Rightarrow> string \<Rightarrow> string"
    \<comment> \<open>service URL, container name, blob name\<close>
  sasUrlOf :: "StorageSharedKeyCredential \<Rightarrow> string option \<Rightarrow> string \<Rightarrow> string \<Rightarrow>
               BlobGenerateSasUrlOptions \<Rightarrow> string"

record BlobServiceClient =
  sdk :: AzureSDK
  service_url :: "string option"
  credential :: StorageSharedKeyCredential

record ContainerClient =
  container_service :: BlobServiceClient
  container_name :: string

record BlobClient =
  blob_container :: ContainerClient
  blob_name :: string

text \<open>
  Errors: \<open>Error\<close> is a JavaScript \<open>Error\<close> thrown locally, by the adapter or by the
  package, with its message; \<open>RestError\<close> is what a request to the service is rejected
  with (its error code).
\<close>

datatype Error = Error string | RestError string

text \<open>
  \<open>blobServiceClient.getContainerClient(name)\<close>. The package cannot build a container
  client for the empty name: it throws, before any request is sent.
\<close>

definition getContainerClient :: "BlobServiceClient \<Rightarrow> string \<Rightarrow> Error + ContainerClient" where
  "getContainerClient blobServiceClient name =
     (if name = []
      then Inl (Error ''Unable to extract containerName with provided information.'')
      else Inr \<lparr>container_service = blobServiceClient, container_name = name\<rparr>)"

text \<open>
  \<open>containerClient.getBlockBlobClient(name)\<close> and \<open>containerClient.getBlobClient(name)\<close>.
  The adapter calls them with the names \<open>getFileName\<close> makes, which always have a slash
  in them.
\<close>

definition getBlockBlobClient :: "ContainerClient \<Rightarrow> string \<Rightarrow> BlobClient" where
  "getBlockBlobClient containerClient name =
     \<lparr>blob_container = containerClient, blob_name = name\<rparr>"

definition getBlobClient :: "ContainerClient \<Rightarrow> string \<Rightarrow> BlobClient" where
  "getBlobClient containerClient name =
     \<lparr>blob_container = containerClient, blob_name = name\<rparr>"

text \<open>\<open>client.url\<close>\<close>

definition client_url :: "BlobClient \<Rightarrow> string" where
  "client_url client =
     (let svc = container_service (blob_container client)
      in blobUrlOf (sdk svc) (service_url svc) (container_name (blob_container client))
           (blob_name client))"

text \<open>\<open>client.generateSasUrl(options)\<close>: computed from the shared key, no request is sent.\<close>

definition generateSasUrl :: "BlobClient \<Rightarrow> BlobGenerateSasUrlOptions \<Rightarrow> string" where
  "generateSasUrl client options =
     (let svc = container_service (blob_container client)
      in sasUrlOf (sdk svc) (credential svc) (service_url svc)
           (container_name (blob_container client)) (blob_name client) options)"

text \<open>\<open>BlobSASPermissions.from({ read: true })\<close>\<close>

definition BlobSASPermissions_from_read :: "SASPermission set" where
  "BlobSASPermissions_from_read = {Read}"

datatype Request =
    Exists string
  | GetProperties string
  | CreateIfNotExists string "PublicAccessType option"
  | UploadStream string string
  | DeleteIfExists string string

text \<open>
  The account holds containers (each with its public access level, \<open>None\<close> when no
  public access is set) and blobs (content and content type), keyed by container and
  blob name. \<open>faults\<close> scripts the transport: the n-th request is rejected with the
  given code when the n-th entry is \<open>Some code\<close>, and goes through when it is \<open>None\<close> or
  the script has ended. \<open>requests\<close> is the history of requests sent. \<open>clock\<close> is what
  \<open>new Date()\<close> reads. \<open>localTZA t isUTC\<close> is the offset of local time from UTC, in
  milliseconds, at the moment \<open>t\<close>, which is a UTC time value when \<open>isUTC\<close> holds and
  a local one otherwise (LocalTZA of ECMAScript); it changes where daylight saving
  time starts or ends.
\<close>

record World =
  container_table :: "string \<rightharpoonup> PublicAccessType option"
  blobs :: "string \<times> string \<rightharpoonup> string \<times> string"
  faults :: "string option list"
  requests :: "Request list"
  clock :: Date
  localTZA :: "int \<Rightarrow> bool \<Rightarrow> int"

text \<open>
  The containers of the account. The service has no container under the empty name (a
  container name has 3 to 63 characters).
\<close>

definition containers :: "World \<Rightarrow> string \<rightharpoonup> PublicAccessType option" where
  "containers w name = (if name = [] then None else container_table w name)"

definition request :: "Request \<Rightarrow> World \<Rightarrow> string option \<times> World" where
  "request r w =
     (case faults w of
        [] \<Rightarrow> (None, w\<lparr>requests := requests w @ [r]\<rparr>)
      | f # fs \<Rightarrow> (f, w\<lparr>faults := fs, requests := requests w @ [r]\<rparr>))"

text \<open>
  The requests below follow the service: a request scripted to fail is rejected with
  its code and changes nothing; a request on a blob or on the properties of a container
  that does not exist is rejected with \<open>ContainerNotFound\<close>; \<open>exists\<close>,
  \<open>createIfNotExists\<close> and \<open>deleteIfExists\<close> answer with a boolean instead of
  rejecting when the container, respectively the blob, is already there or not there.
\<close>

text \<open>\<open>container.exists()\<close>\<close>

definition container_exists :: "ContainerClient \<Rightarrow> World \<Rightarrow> (Error + bool) \<times> World" where
  "container_exists c w =
     (case request (Exists (container_name c)) w of
        (Some code, w') \<Rightarrow> (Inl (RestError code), w')
      | (None, w') \<Rightarrow> (Inr (containers w' (container_name c) \<noteq> None), w'))"

text \<open>\<open>container.getProperties()\<close>, read at \<open>blobPublicAccess\<close>\<close>

definition getProperties ::
  "ContainerClient \<Rightarrow> World \<Rightarrow> (Error + PublicAccessType option) \<times> World" where
  "getProperties c w =
     (case request (GetProperties (container_name c)) w of
        (Some code, w') \<Rightarrow> (Inl (RestError code), w')
      | (None, w') \<Rightarrow>
          (case containers w' (container_name c) of
             None \<Rightarrow> (Inl (RestError ''ContainerNotFound''), w')
           | Some blobPublicAccess \<Rightarrow> (Inr blobPublicAccess, w')))"

text \<open>\<open>container.createIfNotExists({ access })\<close>; the result is \<open>succeeded\<close>.\<close>

definition createIfNotExists ::
  "ContainerClient \<Rightarrow> PublicAccessType option \<Rightarrow> World \<Rightarrow> (Error + bool) \<times> World" where
  "createIfNotExists c access w =
     (case request (CreateIfNotExists (container_name c) access) w of
        (Some code, w') \<Rightarrow> (Inl (RestError code), w')
      | (None, w') \<Rightarrow>
          (if containers w' (container_name c) \<noteq> None then (Inr False, w')
           else (Inr True,
                 w'\<lparr>container_table := (container_table w')(container_name c \<mapsto> access)\<rparr>)))"

text \<open>
  \<open>client.uploadStream(stream, bufferSize, maxBuffers, options)\<close>: the blob is created
  or overwritten with the whole content; the buffering changes nothing in the result.
\<close>

definition uploadStream ::
  "BlobClient \<Rightarrow> string \<Rightarrow> nat \<Rightarrow> nat \<Rightarrow> string \<Rightarrow> World \<Rightarrow> (Error + unit) \<times> World" where
  "uploadStream client content bufferSize maxBuffers blobContentType w =
     (let c = container_name (blob_container client); b = blob_name client in
      case request (UploadStream c b) w of
        (Some code, w') \<Rightarrow> (Inl (RestError code), w')
      | (None, w') \<Rightarrow>
          (if containers w' c = None then (Inl (RestError ''ContainerNotFound''), w')
           else (Inr (), w'\<lparr>blobs := (blobs w')((c, b) \<mapsto> (content, blobContentType))\<rparr>)))"

text \<open>\<open>client.deleteIfExists()\<close>; the result is \<open>succeeded\<close>.\<close>

definition deleteIfExists :: "BlobClient \<Rightarrow> World \<Rightarrow> (Error + bool) \<times> World" where
  "deleteIfExists client w =
     (let c = container_name (blob_container client); b = blob_name client in
      case request (DeleteIfExists c b) w of
        (Some code, w') \<Rightarrow> (Inl (RestError code), w')
      | (None, w') \<Rightarrow>
          (if containers w' c = None then (Inl (RestError ''ContainerNotFound''), w')
           else (Inr (blobs w' (c, b) \<noteq> None), w'\<lparr>blobs := (blobs w')((c, b) := None)\<rparr>)))"

text \<open>
  Dates, after ECMAScript. A \<open>Date\<close> holds a UTC time value; the calendar methods work
  on local time: \<open>LocalTime t = t + LocalTZA(t, true)\<close> and
  \<open>UTC t = t - LocalTZA(t, false)\<close>.
\<close>

definition msPerDay :: int where
  "msPerDay = 86400000"


definition UTC :: "World \<Rightarrow> int \<Rightarrow> Date" where
  "UTC w t = t - localTZA w t False"



definition MakeDate :: "int \<Rightarrow> int \<Rightarrow> int" where
  "MakeDate day time = day * msPerDay + time"

text \<open>
  \<open>new Date(3000, 0)\<close>: local midnight of 1 January 3000, which is day 376200 of the
  epoch, turned into a UTC time value.
\<close>

definition Date_3000_0 :: "World \<Rightarrow> Date" where
  "Date_3000_0 w = UTC w (MakeDate 376200 0)"


section \<open>The adapter of \<open>src/index.ts\<close>\<close>

text \<open>
  An \<open>async\<close> function returns what it resolves or rejects with (\<open>Inr\<close>, \<open>Inl\<close>), the
  file descriptor as the call leaves it (the caller's object is mutated in place) and
  the world after its requests. An exception ends the function where it is thrown:
  what comes after in the source is not run.
\<close>

text \<open>
  \<open>createIfNotExists\<close> is called and not awaited here: the client is returned at once
  and the request is still on its way. The second component is that pending request.
\<close>

definition makeBlobServiceClient ::
  "AzureSDK \<Rightarrow> 'a Config_scheme \<Rightarrow> Error + (BlobServiceClient \<times> Request list)" where
  "makeBlobServiceClient azure config =
     (let credential = \<lparr>accountName = account config, sharedKey = accountKey config\<rparr>;
          blobServiceClient =
            \<lparr>sdk = azure, service_url = serviceBaseURL config, credential = credential\<rparr>
      in if createContainerIfNotExists config = Some True
         then (case getContainerClient blobServiceClient (containerName config) of
                 Inl e \<Rightarrow> Inl e
               | Inr containerClient \<Rightarrow>
                   Inr (blobServiceClient,
                        [CreateIfNotExists (container_name containerClient) None]))
         else Inr (blobServiceClient, []))"

definition bufferSize :: nat where
  "bufferSize = 4 * 1024 * 1024"

definition maxBuffers :: nat where
  "maxBuffers = 20"

definition handleUpload ::
  "'a Config_scheme \<Rightarrow> BlobServiceClient \<Rightarrow> StrapiFile \<Rightarrow> World \<Rightarrow>
   (Error + unit) \<times> StrapiFile \<times> World" where
  "handleUpload config blobSvcClient file w =
     (case getContainerClient blobSvcClient (containerName config) of
        Inl e \<Rightarrow> (Inl e, file, w)
      | Inr containerClient \<Rightarrow>
          (let filename = getFileName (defaultPath config) file;
               client = getBlockBlobClient containerClient filename;
               blobContentType = mime file;
               file' = file\<lparr>url :=
                 (if truthy (cdnBaseURL config)
                  then replace (client_url client) (toString (serviceBaseURL config))
                         (toString (cdnBaseURL config))
                  else client_url client)\<rparr>;
               (r, w') = uploadStream client (stream file') bufferSize maxBuffers
                           blobContentType w
           in (r, file', w')))"

definition handleDelete ::
  "'a Config_scheme \<Rightarrow> BlobServiceClient \<Rightarrow> StrapiFile \<Rightarrow> World \<Rightarrow>
   (Error + unit) \<times> StrapiFile \<times> World" where
  "handleDelete config blobSvcClient file w =
     (case getContainerClient blobSvcClient (containerName config) of
        Inl e \<Rightarrow> (Inl e, file, w)
      | Inr containerClient \<Rightarrow>
          (let client = getBlobClient containerClient (getFileName (defaultPath config) file)
           in case deleteIfExists client w of
                (Inl e, w') \<Rightarrow> (Inl e, file, w')
              | (Inr succeeded, w') \<Rightarrow> (Inr (), file\<lparr>url := client_url client\<rparr>, w')))"



definition missingContainerMessage :: "'a Config_scheme \<Rightarrow> string" where
  "missingContainerMessage config =
     ''upload provider error : container '' @ containerName config @
     '' does not exist. Either use createContainerIfNotExists or create the container manually in '' @
     account config @ '' storage account.''"

function isPrivate ::
  "'a Config_scheme \<Rightarrow> BlobServiceClient \<Rightarrow> World \<Rightarrow> (Error + bool) \<times> World" where
  "isPrivate config blobSvcClient w =
     (case getContainerClient blobSvcClient (containerName config) of
        Inl e \<Rightarrow> (Inl e, w)
      | Inr container \<Rightarrow>
          (case container_exists container w of
             (Inl e, w1) \<Rightarrow> (Inl e, w1)
           | (Inr True, w1) \<Rightarrow>
               (case getProperties container w1 of
                  (Inl e, w2) \<Rightarrow> (Inl e, w2)
                | (Inr blobPublicAccess, w2) \<Rightarrow> (Inr (blobPublicAccess = None), w2))
           | (Inr False, w1) \<Rightarrow>
               (if createContainerIfNotExists config = Some True
                then (case createIfNotExists container None w1 of
                        (Inl e, w2) \<Rightarrow> (Inl e, w2)
                      | (Inr succeeded, w2) \<Rightarrow> isPrivate config blobSvcClient w2)
                else (Inl (Error (missingContainerMessage config)), w1))))"
  by pat_completeness auto

text \<open>
  The recursive call is made only after \<open>exists\<close> answered false and
  \<open>createIfNotExists\<close> resolved. In this world nothing but the adapter's own requests
  changes the account, so the container is there at the second call: the count of
  missing containers under the configured name goes from one to zero. The source has
  no cap of its own on the recursion.
\<close>

termination isPrivate
proof (relation "measure (\<lambda>(config, blobSvcClient, w).
         if containers w (containerName config) = None then 1 else 0)", goal_cases)
  case 1
  show ?case by simp
next
  case 2
  then show ?case
    by (auto simp: container_exists_def createIfNotExists_def getContainerClient_def request_def
        containers_def split: list.splits option.splits if_splits prod.splits)
qed

declare isPrivate.simps [simp del]

text \<open>
  \<open>init\<close>: the configuration is normalised (\<open>init_config\<close> is the object assigned to
  \<open>config\<close> in its first statement), the client is made, and the provider object
  closes over both. \<open>makeBlobServiceClient\<close> can throw, and then \<open>init\<close> does.
\<close>

record 'c Provider =
  provider_config :: 'c
  provider_client :: BlobServiceClient

definition init_config :: "RawConfig \<Rightarrow> Config" where
  "init_config config =
     \<lparr>account = trimParam (raw_account config),
      accountKey = trimParam (raw_accountKey config),
      serviceBaseURL =
        Some (if trimParam (raw_serviceBaseURL config) \<noteq> []
              then trimParam (raw_serviceBaseURL config)
              else ''https://'' @ trimParam (raw_account config) @
                   ''.blob.core.windows.net''),
      containerName = trimParam (raw_containerName config),
      defaultPath = trimParam (raw_defaultPath config),
      cdnBaseURL = Some (trimParam (raw_cdnBaseURL config)),
      createContainerIfNotExists =
        Some (case raw_createContainerIfNotExists config of
                None \<Rightarrow> True
              | Some b \<Rightarrow> b)\<rparr>"

definition init :: "AzureSDK \<Rightarrow> RawConfig \<Rightarrow> Error + (Config Provider \<times> Request list)" where
  "init azure config =
     (let config' = init_config config in
      case makeBlobServiceClient azure config' of
        Inl e \<Rightarrow> Inl e
      | Inr (blobSvcClient, pending) \<Rightarrow>
          Inr (\<lparr>provider_config = config', provider_client = blobSvcClient\<rparr>, pending))"

definition upload ::
  "Config Provider \<Rightarrow> StrapiFile \<Rightarrow> World \<Rightarrow> (Error + unit) \<times> StrapiFile \<times> World" where
  "upload p file w = handleUpload (provider_config p) (provider_client p) file w"

definition uploadStream_provider ::
  "Config Provider \<Rightarrow> StrapiFile \<Rightarrow> World \<Rightarrow> (Error + unit) \<times> StrapiFile \<times> World" where
  "uploadStream_provider p file w = handleUpload (provider_config p) (provider_client p) file w"

definition delete_provider ::
  "Config Provider \<Rightarrow> StrapiFile \<Rightarrow> World \<Rightarrow> (Error + unit) \<times> StrapiFile \<times> World" where
  "delete_provider p file w = handleDelete (provider_config p) (provider_client p) file w"


definition isPrivate_provider :: "Config Provider \<Rightarrow> World \<Rightarrow> (Error + bool) \<times> World" where
  "isPrivate_provider p w = isPrivate (provider_config p) (provider_client p) w"

section \<open>The adapter of the second source file\<close>

text \<open>
  This variant has \<open>containerAccessType\<close> in its configuration, signs at upload, and has
  neither \<open>getSignedUrl\<close> nor \<open>isPrivate\<close>. \<open>trimParam\<close>, \<open>getFileName\<close> and
  \<open>handleDelete\<close> are the same text in both files and are modelled once, above.
\<close>

text \<open>
  \<open>config.containerAccessType == 'private' ? undefined : config.containerAccessType\<close>
\<close>

definition accessOption :: "ContainerAccessType option \<Rightarrow> PublicAccessType option" where
  "accessOption t =
     (case t of
        None \<Rightarrow> None
      | Some Private \<Rightarrow> None
      | Some Blob \<Rightarrow> Some PublicBlob
      | Some Container \<Rightarrow> Some PublicContainer)"

text \<open>The file's own helper \<open>getContainerClient(blobServiceClient, config)\<close>.\<close>

definition getContainerClient_001 ::
  "BlobServiceClient \<Rightarrow> 'a Config_001_scheme \<Rightarrow> Error + ContainerClient" where
  "getContainerClient_001 blobServiceClient config =
     getContainerClient blobServiceClient (containerName config)"

definition makeBlobServiceClient_001 ::
  "AzureSDK \<Rightarrow> 'a Config_001_scheme \<Rightarrow> Error + (BlobServiceClient \<times> Request list)" where
  "makeBlobServiceClient_001 azure config =
     (let credential = \<lparr>accountName = account config, sharedKey = accountKey config\<rparr>;
          blobServiceClient =
            \<lparr>sdk = azure, service_url = serviceBaseURL config, credential = credential\<rparr>
      in if createContainerIfNotExists config = Some True
         then (case getContainerClient_001 blobServiceClient config of
                 Inl e \<Rightarrow> Inl e
               | Inr containerClient \<Rightarrow>
                   Inr (blobServiceClient,
                        [CreateIfNotExists (container_name containerClient)
                           (accessOption (containerAccessType config))]))
         else Inr (blobServiceClient, []))"

definition handleUpload_001 ::
  "'a Config_001_scheme \<Rightarrow> BlobServiceClient \<Rightarrow> StrapiFile \<Rightarrow> World \<Rightarrow>
   (Error + unit) \<times> StrapiFile \<times> World" where
  "handleUpload_001 config blobSvcClient file w =
     (case getContainerClient_001 blobSvcClient config of
        Inl e \<Rightarrow> (Inl e, file, w)
      | Inr containerClient \<Rightarrow>
          (let filename = getFileName (defaultPath config) file;
               client = getBlockBlobClient containerClient filename;
               blobContentType = mime file;
               url = (if containerAccessType config = Some Private
                      then generateSasUrl client
                             \<lparr>permissions = BlobSASPermissions_from_read,
                              expiresOn = Date_3000_0 w\<rparr>
                      else client_url client);
               file' = file\<lparr>url :=
                 (if truthy (cdnBaseURL config)
                  then replace url (toString (serviceBaseURL config))
                         (toString (cdnBaseURL config))
                  else url)\<rparr>;
               (r, w') = uploadStream client (stream file') bufferSize maxBuffers
                           blobContentType w
           in (r, file', w')))"

definition init_config_001 :: "RawConfig \<Rightarrow> Config_001" where
  "init_config_001 config =
     \<lparr>account = trimParam (raw_account config),
      accountKey = trimParam (raw_accountKey config),
      serviceBaseURL =
        Some (if trimParam (raw_serviceBaseURL config) \<noteq> []
              then trimParam (raw_serviceBaseURL config)
              else ''https://'' @ trimParam (raw_account config) @
                   ''.blob.core.windows.net''),
      containerName = trimParam (raw_containerName config),
      defaultPath = trimParam (raw_defaultPath config),
      cdnBaseURL = Some (trimParam (raw_cdnBaseURL config)),
      createContainerIfNotExists =
        Some (case raw_createContainerIfNotExists config of
                None \<Rightarrow> True
              | Some b \<Rightarrow> b),
      containerAccessType = raw_containerAccessType config\<rparr>"

definition init_001 ::
  "AzureSDK \<Rightarrow> RawConfig \<Rightarrow> Error + (Config_001 Provider \<times> Request list)" where
  "init_001 azure config =
     (let config' = init_config_001 config in
      case makeBlobServiceClient_001 azure config' of
        Inl e \<Rightarrow> Inl e
      | Inr (blobSvcClient, pending) \<Rightarrow>
          Inr (\<lparr>provider_config = config', provider_client = blobSvcClient\<rparr>, pending))"

definition upload_001 ::
  "Config_001 Provider \<Rightarrow> StrapiFile \<Rightarrow> World \<Rightarrow> (Error + unit) \<times> StrapiFile \<times> World" where
  "upload_001 p file w = handleUpload_001 (provider_config p) (provider_client p) file w"

definition uploadStream_001 ::
  "Config_001 Provider \<Rightarrow> StrapiFile \<Rightarrow> World \<Rightarrow> (Error + unit) \<times> StrapiFile \<times> World" where
  "uploadStream_001 p file w = handleUpload_001 (provider_config p) (provider_client p) file w"

definition delete_001 ::
  "Config_001 Provider \<Rightarrow> StrapiFile \<Rightarrow> World \<Rightarrow> (Error + unit) \<times> StrapiFile \<times> World" where
  "delete_001 p file w = handleDelete (provider_config p) (provider_client p) file w"

section \<open>Notions used by the properties\<close>

text \<open>The next \<open>n\<close> requests reach the service: none of them is scripted to fail.\<close>

definition unfaulted :: "nat \<Rightarrow> World \<Rightarrow> bool" where
  "unfaulted n w = list_all (\<lambda>f. f = None) (take n (faults w))"

text \<open>The world after one request was sent: it is in the history and its script entry is used up.\<close>

definition sent :: "Request \<Rightarrow> World \<Rightarrow> World" where
  "sent r w = w\<lparr>faults := tl (faults w), requests := requests w @ [r]\<rparr>"

text \<open>The client the adapter gets for the blob \<open>b\<close> of the container \<open>c\<close>.\<close>

definition blobClientOf :: "BlobServiceClient \<Rightarrow> string \<Rightarrow> string \<Rightarrow> BlobClient" where
  "blobClientOf blobServiceClient c b =
     \<lparr>blob_container = \<lparr>container_service = blobServiceClient, container_name = c\<rparr>,
      blob_name = b\<rparr>"

text \<open>
  The first occurrence of \<open>pat\<close> in \<open>s\<close>, when there is one, replaced by the text \<open>r\<close>
  as it is.
\<close>

definition replaceFirst :: "string \<Rightarrow> string \<Rightarrow> string \<Rightarrow> string" where
  "replaceFirst s pat r =
     (case splitAtFirst pat s of
        None \<Rightarrow> s
      | Some (preceding, following) \<Rightarrow> preceding @ r @ following)"

text \<open>
  An answer of \<open>isPrivate\<close> agrees with an access type when it is true for
  \<open>private\<close> (also when nothing is configured, private being the documented default)
  and false for \<open>blob\<close> and \<open>container\<close>.
\<close>

definition consistentWithAccessType :: "ContainerAccessType option \<Rightarrow> bool \<Rightarrow> bool" where
  "consistentWithAccessType t answer \<longleftrightarrow> (answer \<longleftrightarrow> t = None \<or> t = Some Private)"

section \<open>A concrete SDK and concrete inputs\<close>

text \<open>
  An instance of \<open>AzureSDK\<close> to run the adapter on concrete inputs. The URL of a blob
  is laid out as the package does for names that need no escaping: service URL,
  container, blob name, joined by single slashes. The signed URL appends a query with
  the permissions and the expiry; the signature itself is a placeholder.
\<close>

definition appendToURLPath :: "string \<Rightarrow> string \<Rightarrow> string" where
  "appendToURLPath u name =
     (if u \<noteq> [] \<and> last u = CHR ''/'' then u @ name else u @ ''/'' @ name)"

fun decimal :: "nat \<Rightarrow> string" where
  "decimal n =
     (if n < 10 then [''0123456789'' ! n]
      else decimal (n div 10) @ [''0123456789'' ! (n mod 10)])"

declare decimal.simps [simp del]

definition permissionString :: "SASPermission set \<Rightarrow> string" where
  "permissionString ps =
     (if Read \<in> ps then ''r'' else []) @ (if Add \<in> ps then ''a'' else []) @
     (if Create \<in> ps then ''c'' else []) @ (if Write \<in> ps then ''w'' else []) @
     (if Delete \<in> ps then ''d'' else [])"

definition exampleSDK :: AzureSDK where
  "exampleSDK =
     \<lparr>blobUrlOf = (\<lambda>u c b. appendToURLPath (appendToURLPath (toString u) c) b),
      sasUrlOf = (\<lambda>cred u c b options.
        appendToURLPath (appendToURLPath (toString u) c) b @
        ''?sp='' @ permissionString (permissions options) @
        ''&se='' @ decimal (nat (expiresOn options)) @
        ''&sig=SIGNED-BY-'' @ accountName cred)\<rparr>"

definition exampleRaw :: RawConfig where
  "exampleRaw =
     \<lparr>raw_account = Some ''acc'', raw_accountKey = Some '' key'',
      raw_serviceBaseURL = None, raw_containerName = Some ''media'',
      raw_defaultPath = Some '' assets '', raw_cdnBaseURL = None,
      raw_createContainerIfNotExists = None, raw_containerAccessType = None\<rparr>"

definition exampleFile :: StrapiFile where
  "exampleFile =
     \<lparr>stream = ''PNG'', hash = ''abc'', url = ''stale'', ext = ''.png'',
      mime = ''image/png'', path = []\<rparr>"

text \<open>
  An account with no container, an account with the private container \<open>media\<close>, and a
  runtime whose local time moves from UTC to one hour ahead of it less than a day
  after the clock reading.
\<close>

definition emptyWorld :: World where
  "emptyWorld =
     \<lparr>container_table = Map.empty, blobs = Map.empty, faults = [], requests = [],
      clock = 1700000000000, localTZA = (\<lambda>t isUTC. 0)\<rparr>"

definition mediaWorld :: World where
  "mediaWorld = emptyWorld\<lparr>container_table := [''media'' \<mapsto> None]\<rparr>"

definition summerWorld :: World where
  "summerWorld =
     emptyWorld\<lparr>localTZA := (\<lambda>t isUTC. if t < 1700040000000 then 0 else 3600000)\<rparr>"

section \<open>Properties of the string operations\<close>

lemma trim_append_ws:
  assumes "list_all isWhiteSpace l" and "list_all isWhiteSpace r"
  shows "trim (l @ s @ r) = trim s"
proof -
  have l: "dropWhile isWhiteSpace (l @ t) = dropWhile isWhiteSpace t" for t
    using assms(1) by (simp add: list_all_iff)
  have r: "dropWhile isWhiteSpace (rev r @ t) = dropWhile isWhiteSpace t" for t
    using assms(2) by (intro dropWhile_append2) (simp add: list_all_iff)
  show ?thesis
  proof (cases "list_all isWhiteSpace s")
    case True
    then have "dropWhile isWhiteSpace (s @ r) = []" "dropWhile isWhiteSpace s = []"
      using assms(2) by (simp_all add: list_all_iff)
    then show ?thesis by (simp only: trim_def l)
  next
    case False
    then obtain x where x: "x \<in> set s" "\<not> isWhiteSpace x"
      by (auto simp: list_all_iff)
    then have "dropWhile isWhiteSpace (s @ r) = dropWhile isWhiteSpace s @ r"
      by simp
    then show ?thesis by (simp add: trim_def l r)
  qed
qed

lemma last_dropWhile_nonempty: "dropWhile P xs \<noteq> [] \<Longrightarrow> last (dropWhile P xs) = last xs"
  by (induction xs) auto

lemma trim_ends:
  assumes ne: "trim s \<noteq> []"
  shows "\<not> isWhiteSpace (hd (trim s)) \<and> \<not> isWhiteSpace (last (trim s))"
proof -
  let ?a = "dropWhile isWhiteSpace s"
  let ?b = "dropWhile isWhiteSpace (rev ?a)"
  have b: "?b \<noteq> []" using ne by (simp add: trim_def)
  then have hb: "\<not> isWhiteSpace (hd ?b)" by (rule hd_dropWhile)
  have a: "?a \<noteq> []"
  proof
    assume "?a = []"
    then have "?b = []" by (simp only: rev.simps dropWhile.simps)
    with b show False by simp
  qed
  then have ha: "\<not> isWhiteSpace (hd ?a)" by (rule hd_dropWhile)
  have "last (trim s) = hd ?b" using b by (simp add: trim_def last_rev)
  moreover have "hd (trim s) = last ?b" using b by (simp add: trim_def hd_rev)
  moreover have "last ?b = last (rev ?a)" using b by (rule last_dropWhile_nonempty)
  moreover have "last (rev ?a) = hd ?a" using a by (simp add: last_rev)
  ultimately show ?thesis using ha hb by simp
qed

lemma trim_assets: "trim ''assets'' = ''assets''"
  by (simp add: trim_def isWhiteSpace_def)

section \<open>Object keys\<close>

text \<open>
  Claim C7. The key is a function of the path, the hash and the extension alone: two
  descriptors with the same hash and extension get the same key, whatever their other
  fields. The key is the trimmed path, a slash, the hash and the extension; white
  space around the configured path does not change it, and the trimmed path neither
  starts nor ends with white space. For the path \<open>assets\<close>, the hash \<open>abc\<close> and the
  extension \<open>.png\<close> the key is \<open>assets/abc.png\<close>.
\<close>

theorem getFileName_key:
  assumes "list_all isWhiteSpace l" and "list_all isWhiteSpace r"
    and "hash g = hash f" and "ext g = ext f"
  shows "getFileName (l @ p @ r) g = trim p @ ''/'' @ hash f @ ext f
       \<and> getFileName (l @ p @ r) g = getFileName p f
       \<and> (trim p \<noteq> [] \<longrightarrow> \<not> isWhiteSpace (hd (trim p)) \<and> \<not> isWhiteSpace (last (trim p)))
       \<and> getFileName ''assets'' (f\<lparr>hash := ''abc'', ext := ''.png''\<rparr>) = ''assets/abc.png''"
  using assms trim_ends [of p] trim_append_ws [of l r p]
  by (simp add: getFileName_def trimParam_def trim_assets)

theorem getFileName_key_witness:
  "list_all isWhiteSpace [CHR 0x20, CHR 0x09] \<and> list_all isWhiteSpace [CHR 0x0A]
   \<and> getFileName ([CHR 0x20, CHR 0x09] @ ''my assets'' @ [CHR 0x0A]) exampleFile = ''my assets/abc.png''
   \<and> getFileName ''assets'' exampleFile = ''assets/abc.png''"
  using getFileName_key [of "[CHR 0x20, CHR 0x09]" "[CHR 0x0A]" exampleFile exampleFile "''my assets''"]
  by (simp add: exampleFile_def isWhiteSpace_def trim_def)

section \<open>Requests and the fault script\<close>

lemma request_eq:
  "request r w = ((case faults w of [] \<Rightarrow> None | f # fs \<Rightarrow> f), sent r w)"
  by (simp add: request_def sent_def split: list.splits)

lemma unfaulted_request:
  "unfaulted (Suc n) w \<Longrightarrow> request r w = (None, sent r w) \<and> unfaulted n (sent r w)"
  by (cases "faults w") (simp_all add: request_eq unfaulted_def sent_def)

lemma sent_simps [simp]:
  "containers (sent r w) = containers w"
  "container_table (sent r w) = container_table w"
  "blobs (sent r w) = blobs w"
  "requests (sent r w) = requests w @ [r]"
  "faults (sent r w) = tl (faults w)"
  "clock (sent r w) = clock w"
  "localTZA (sent r w) = localTZA w"
  by (simp_all add: sent_def containers_def fun_eq_iff)

section \<open>Normalised configuration and fixtures\<close>

text \<open>
  \<open>init\<close> fails exactly when the container is to be created and its name is empty;
  otherwise the provider holds the normalised configuration and a client for the
  normalised service URL.
\<close>

lemma init_eq:
  "init azure raw =
     (if raw_createContainerIfNotExists raw \<noteq> Some False \<and> trimParam (raw_containerName raw) = []
      then Inl (Error ''Unable to extract containerName with provided information.'')
      else Inr (\<lparr>provider_config = init_config raw,
                 provider_client =
                   \<lparr>sdk = azure, service_url = serviceBaseURL (init_config raw),
                    credential = \<lparr>accountName = trimParam (raw_account raw),
                                  sharedKey = trimParam (raw_accountKey raw)\<rparr>\<rparr>\<rparr>,
                if raw_createContainerIfNotExists raw \<noteq> Some False
                then [CreateIfNotExists (trimParam (raw_containerName raw)) None] else []))"
  by (auto simp: init_def init_config_def makeBlobServiceClient_def getContainerClient_def Let_def
      split: option.splits)

lemma init_001_eq:
  "init_001 azure raw =
     (if raw_createContainerIfNotExists raw \<noteq> Some False \<and> trimParam (raw_containerName raw) = []
      then Inl (Error ''Unable to extract containerName with provided information.'')
      else Inr (\<lparr>provider_config = init_config_001 raw,
                 provider_client =
                   \<lparr>sdk = azure, service_url = serviceBaseURL (init_config_001 raw),
                    credential = \<lparr>accountName = trimParam (raw_account raw),
                                  sharedKey = trimParam (raw_accountKey raw)\<rparr>\<rparr>\<rparr>,
                if raw_createContainerIfNotExists raw \<noteq> Some False
                then [CreateIfNotExists (trimParam (raw_containerName raw))
                        (accessOption (raw_containerAccessType raw))]
                else []))"
  by (auto simp: init_001_def init_config_001_def makeBlobServiceClient_001_def
      getContainerClient_001_def getContainerClient_def Let_def split: option.splits)

lemma trimParam_simps:
  "trimParam None = []"
  "trimParam (Some s) = trim s"
  by (simp_all add: trimParam_def)

lemma trim_examples:
  "trim ''acc'' = ''acc''"
  "trim '' key'' = ''key''"
  "trim ''media'' = ''media''"
  "trim '' assets '' = ''assets''"
  "trim ''https://cdn.example.com'' = ''https://cdn.example.com''"
  "trim ''https://cdn.example.com/$&'' = ''https://cdn.example.com/$&''"
  by (simp_all add: trim_def isWhiteSpace_def)

text \<open>
  The fixture configurations: \<open>exampleRaw\<close> with some of the optional settings set.
\<close>

lemma example_init:
  assumes "raw = exampleRaw\<lparr>raw_cdnBaseURL := cdn, raw_createContainerIfNotExists := cr,
                              raw_containerAccessType := t\<rparr>"
  shows "init exampleSDK raw =
     Inr (\<lparr>provider_config =
             \<lparr>account = ''acc'', accountKey = ''key'',
              serviceBaseURL = Some ''https://acc.blob.core.windows.net'',
              containerName = ''media'', defaultPath = ''assets'',
              cdnBaseURL = Some (trimParam cdn),
              createContainerIfNotExists = Some (cr \<noteq> Some False)\<rparr>,
           provider_client =
             \<lparr>sdk = exampleSDK, service_url = Some ''https://acc.blob.core.windows.net'',
              credential = \<lparr>accountName = ''acc'', sharedKey = ''key''\<rparr>\<rparr>\<rparr>,
          if cr \<noteq> Some False then [CreateIfNotExists ''media'' None] else [])"
  unfolding assms
  by (cases cr) (auto simp: init_eq init_config_def exampleRaw_def trimParam_simps trim_examples)

lemma example_init_001:
  assumes "raw = exampleRaw\<lparr>raw_cdnBaseURL := cdn, raw_createContainerIfNotExists := cr,
                              raw_containerAccessType := t\<rparr>"
  shows "init_001 exampleSDK raw =
     Inr (\<lparr>provider_config =
             \<lparr>account = ''acc'', accountKey = ''key'',
              serviceBaseURL = Some ''https://acc.blob.core.windows.net'',
              containerName = ''media'', defaultPath = ''assets'',
              cdnBaseURL = Some (trimParam cdn),
              createContainerIfNotExists = Some (cr \<noteq> Some False),
              containerAccessType = t\<rparr>,
           provider_client =
             \<lparr>sdk = exampleSDK, service_url = Some ''https://acc.blob.core.windows.net'',
              credential = \<lparr>accountName = ''acc'', sharedKey = ''key''\<rparr>\<rparr>\<rparr>,
          if cr \<noteq> Some False then [CreateIfNotExists ''media'' (accessOption t)] else [])"
  unfolding assms
  by (cases cr) (auto simp: init_001_eq init_config_001_def exampleRaw_def trimParam_simps
      trim_examples)

lemma exampleRaw_updates:
  "exampleRaw = exampleRaw\<lparr>raw_cdnBaseURL := None, raw_createContainerIfNotExists := None,
                            raw_containerAccessType := None\<rparr>"
  "exampleRaw\<lparr>raw_containerAccessType := t\<rparr> =
     exampleRaw\<lparr>raw_cdnBaseURL := None, raw_createContainerIfNotExists := None,
                 raw_containerAccessType := t\<rparr>"
  "exampleRaw\<lparr>raw_createContainerIfNotExists := cr\<rparr> =
     exampleRaw\<lparr>raw_cdnBaseURL := None, raw_createContainerIfNotExists := cr,
                 raw_containerAccessType := None\<rparr>"
  "exampleRaw\<lparr>raw_cdnBaseURL := cdn\<rparr> =
     exampleRaw\<lparr>raw_cdnBaseURL := cdn, raw_createContainerIfNotExists := None,
                 raw_containerAccessType := None\<rparr>"
  "exampleRaw\<lparr>raw_cdnBaseURL := cdn, raw_containerAccessType := t\<rparr> =
     exampleRaw\<lparr>raw_cdnBaseURL := cdn, raw_createContainerIfNotExists := None,
                 raw_containerAccessType := t\<rparr>"
  by (simp_all add: exampleRaw_def)

lemmas world_eval = emptyWorld_def mediaWorld_def summerWorld_def unfaulted_def containers_def

section \<open>Container visibility\<close>

lemma containers_name: "containers w name = Some a \<Longrightarrow> name \<noteq> []"
  by (auto simp: containers_def split: if_splits)

lemma getContainerClient_named:
  "name \<noteq> [] \<Longrightarrow>
     getContainerClient svc name = Inr \<lparr>container_service = svc, container_name = name\<rparr>"
  by (simp add: getContainerClient_def)

lemma getContainerClient_unnamed:
  "getContainerClient svc [] =
     Inl (Error ''Unable to extract containerName with provided information.'')"
  by (simp add: getContainerClient_def)

lemma isPrivate_present:
  assumes "containers w (containerName config) = Some access" and "unfaulted 2 w"
  shows "isPrivate config client w =
           (Inr (access = None),
            sent (GetProperties (containerName config)) (sent (Exists (containerName config)) w))"
proof -
  let ?n = "containerName config"
  have n: "?n \<noteq> []" using assms(1) by (rule containers_name)
  have 2: "unfaulted (Suc (Suc 0)) w" using assms(2) by (simp add: numeral_2_eq_2)
  have e: "request (Exists ?n) w = (None, sent (Exists ?n) w)"
    and u: "unfaulted (Suc 0) (sent (Exists ?n) w)"
    using unfaulted_request [OF 2] by simp_all
  have g: "request (GetProperties ?n) (sent (Exists ?n) w)
             = (None, sent (GetProperties ?n) (sent (Exists ?n) w))"
    using unfaulted_request [OF u] by simp
  show ?thesis
    by (subst isPrivate.simps)
       (simp add: getContainerClient_named [OF n] container_exists_def getProperties_def e g
          assms(1))
qed

lemma isPrivate_autocreate:
  assumes "containerName config \<noteq> []"
    and "containers w (containerName config) = None"
    and "createContainerIfNotExists config = Some True"
    and "unfaulted 4 w"
  shows "isPrivate config client w =
           (Inr True,
            (sent (GetProperties (containerName config)) (sent (Exists (containerName config))
              (sent (CreateIfNotExists (containerName config) None)
                (sent (Exists (containerName config)) w))))
            \<lparr>container_table := (container_table w)(containerName config \<mapsto> None)\<rparr>)"
proof -
  let ?n = "containerName config"
  let ?w1 = "sent (Exists ?n) w"
  let ?w2 = "(sent (CreateIfNotExists ?n None) ?w1)\<lparr>container_table := (container_table w)(?n \<mapsto> None)\<rparr>"
  have 4: "unfaulted (Suc (Suc (Suc (Suc 0)))) w" using assms(4) by (simp add: eval_nat_numeral)
  have e: "request (Exists ?n) w = (None, ?w1)" and u1: "unfaulted (Suc (Suc (Suc 0))) ?w1"
    using unfaulted_request [OF 4] by simp_all
  have c: "request (CreateIfNotExists ?n None) ?w1 = (None, sent (CreateIfNotExists ?n None) ?w1)"
    and u2: "unfaulted (Suc (Suc 0)) (sent (CreateIfNotExists ?n None) ?w1)"
    using unfaulted_request [OF u1] by simp_all
  have u2': "unfaulted 2 ?w2" using u2 by (simp add: unfaulted_def numeral_2_eq_2)
  have step: "isPrivate config client w = isPrivate config client ?w2"
    using assms(2,3) e c
    by (subst isPrivate.simps)
       (simp add: getContainerClient_named [OF assms(1)] container_exists_def
          createIfNotExists_def)
  have p: "containers ?w2 ?n = Some None" using assms(1) by (simp add: containers_def)
  show ?thesis
    unfolding step isPrivate_present [OF p u2', of client]
    by (simp add: sent_def)
qed

lemma isPrivate_unnamed:
  "containerName config = [] \<Longrightarrow>
     isPrivate config client w =
       (Inl (Error ''Unable to extract containerName with provided information.''), w)"
  by (subst isPrivate.simps) (simp add: getContainerClient_unnamed)

lemma sublist_append_mid: "sublist x (a @ x @ b)"
  by (auto simp: sublist_def)

text \<open>
  Claim C2. On a container that exists, \<open>isPrivate\<close> answers true exactly when the
  service reports no public access level for it, so it answers false for the levels
  \<open>blob\<close> and \<open>container\<close>. It sends the existence query and the properties query,
  and leaves the containers as they are. The two requests are taken to reach the
  service.
\<close>

theorem isPrivate_existing_container:
  assumes "containers w (containerName config) = Some access" and "unfaulted 2 w"
  shows "fst (isPrivate config client w) = Inr (access = None)
       \<and> (access = Some PublicBlob \<or> access = Some PublicContainer
            \<longrightarrow> fst (isPrivate config client w) = Inr False)
       \<and> containers (snd (isPrivate config client w)) = containers w
       \<and> requests (snd (isPrivate config client w)) =
           requests w @ [Exists (containerName config), GetProperties (containerName config)]"
  using isPrivate_present [OF assms] by auto

theorem isPrivate_existing_container_witness:
  "containers (mediaWorld\<lparr>container_table := [''media'' \<mapsto> Some PublicBlob]\<rparr>) ''media''
     = Some (Some PublicBlob)
   \<and> unfaulted 2 mediaWorld
   \<and> fst (isPrivate_provider (fst (projr (init exampleSDK exampleRaw))) mediaWorld) = Inr True
   \<and> fst (isPrivate_provider (fst (projr (init exampleSDK exampleRaw)))
            (mediaWorld\<lparr>container_table := [''media'' \<mapsto> Some PublicBlob]\<rparr>)) = Inr False"
proof -
  let ?p = "fst (projr (init exampleSDK exampleRaw))"
  let ?w = "mediaWorld\<lparr>container_table := [''media'' \<mapsto> Some PublicBlob]\<rparr>"
  note i = example_init [OF exampleRaw_updates(1)]
  have n: "containerName (provider_config ?p) = ''media''"
    by (simp add: i)
  have u: "unfaulted 2 mediaWorld" "unfaulted 2 ?w"
    by (simp_all add: world_eval)
  have c: "containers mediaWorld (containerName (provider_config ?p)) = Some None"
    "containers ?w (containerName (provider_config ?p)) = Some (Some PublicBlob)"
    by (simp_all add: n world_eval)
  show ?thesis
    using isPrivate_existing_container [OF c(1) u(1), of "provider_client ?p"]
      isPrivate_existing_container [OF c(2) u(2), of "provider_client ?p"] u(1) c(2)
    by (simp add: isPrivate_provider_def n)
qed

text \<open>
  Claim C3, as the code has it. When the configured container name is not empty, the
  container is missing, auto-creation is off (false, or not set at all) and the
  existence query is answered, \<open>isPrivate\<close> rejects with an \<open>Error\<close> whose message
  contains the configured container name and the configured account name, and creates
  nothing.
\<close>

theorem isPrivate_missing_container_error:
  assumes "containerName config \<noteq> []"
    and "containers w (containerName config) = None"
    and "createContainerIfNotExists config \<noteq> Some True"
    and "unfaulted 1 w"
  shows "fst (isPrivate config client w) = Inl (Error (missingContainerMessage config))
       \<and> missingContainerMessage config =
           ''upload provider error : container '' @ containerName config @
           '' does not exist. Either use createContainerIfNotExists or create the container manually in '' @
           account config @ '' storage account.''
       \<and> sublist (containerName config) (missingContainerMessage config)
       \<and> sublist (account config) (missingContainerMessage config)
       \<and> containers (snd (isPrivate config client w)) = containers w
       \<and> requests (snd (isPrivate config client w)) = requests w @ [Exists (containerName config)]"
proof -
  let ?n = "containerName config"
  have 1: "unfaulted (Suc 0) w" using assms(4) by simp
  have e: "request (Exists ?n) w = (None, sent (Exists ?n) w)"
    using unfaulted_request [OF 1] by simp
  have r: "isPrivate config client w = (Inl (Error (missingContainerMessage config)), sent (Exists ?n) w)"
    using assms(2,3)
    by (subst isPrivate.simps)
       (simp add: getContainerClient_named [OF assms(1)] container_exists_def e)
  have s1: "sublist (containerName config) (missingContainerMessage config)"
    unfolding missingContainerMessage_def by (rule sublist_append_mid)
  have s2: "sublist (account config) (missingContainerMessage config)"
    unfolding missingContainerMessage_def
    using sublist_append_mid [of "account config" "''upload provider error : container '' @ containerName config @
     '' does not exist. Either use createContainerIfNotExists or create the container manually in ''" "'' storage account.''"]
    by simp
  show ?thesis using r s1 s2 by (simp add: missingContainerMessage_def)
qed

theorem isPrivate_missing_container_error_witness:
  "containerName (provider_config (fst (projr (init exampleSDK
       (exampleRaw\<lparr>raw_createContainerIfNotExists := Some False\<rparr>))))) = ''media''
   \<and> containers emptyWorld ''media'' = None \<and> unfaulted 1 emptyWorld
   \<and> createContainerIfNotExists
        (provider_config (fst (projr (init exampleSDK
           (exampleRaw\<lparr>raw_createContainerIfNotExists := Some False\<rparr>)))))
       = Some False
   \<and> fst (isPrivate_provider
        (fst (projr (init exampleSDK (exampleRaw\<lparr>raw_createContainerIfNotExists := Some False\<rparr>))))
        emptyWorld)
     = Inl (Error ''upload provider error : container media does not exist. Either use createContainerIfNotExists or create the container manually in acc storage account.'')"
proof -
  let ?p = "fst (projr (init exampleSDK (exampleRaw\<lparr>raw_createContainerIfNotExists := Some False\<rparr>)))"
  note i = example_init [OF exampleRaw_updates(3) [of "Some False"]]
  have c: "containerName (provider_config ?p) = ''media''" "account (provider_config ?p) = ''acc''"
    "createContainerIfNotExists (provider_config ?p) = Some False"
    by (simp_all add: i)
  have h: "containerName (provider_config ?p) \<noteq> []"
    "containers emptyWorld (containerName (provider_config ?p)) = None"
    "createContainerIfNotExists (provider_config ?p) \<noteq> Some True"
    "unfaulted 1 emptyWorld"
    by (simp_all add: c world_eval)
  show ?thesis
    using isPrivate_missing_container_error [OF h, of "provider_client ?p"] h(4)
    by (simp add: isPrivate_provider_def c world_eval)
qed

text \<open>
  The claim as stated fails when no container name is configured. \<open>init\<close> accepts
  such a configuration when auto-creation is off; there is no container under the
  empty name; and \<open>isPrivate\<close> rejects with the error of the package, thrown at
  \<open>getContainerClient\<close>, whose message does not contain the account name.
\<close>

theorem isPrivate_empty_container_name:
  "init exampleSDK (exampleRaw\<lparr>raw_containerName := None,
                              raw_createContainerIfNotExists := Some False\<rparr>)
     = Inr (\<lparr>provider_config =
               \<lparr>account = ''acc'', accountKey = ''key'',
                serviceBaseURL = Some ''https://acc.blob.core.windows.net'',
                containerName = [], defaultPath = ''assets'', cdnBaseURL = Some [],
                createContainerIfNotExists = Some False\<rparr>,
             provider_client =
               \<lparr>sdk = exampleSDK, service_url = Some ''https://acc.blob.core.windows.net'',
                credential = \<lparr>accountName = ''acc'', sharedKey = ''key''\<rparr>\<rparr>\<rparr>, [])
   \<and> containers emptyWorld [] = None
   \<and> isPrivate_provider
        (fst (projr (init exampleSDK (exampleRaw\<lparr>raw_containerName := None,
                                                  raw_createContainerIfNotExists := Some False\<rparr>))))
        emptyWorld
     = (Inl (Error ''Unable to extract containerName with provided information.''), emptyWorld)
   \<and> \<not> sublist ''acc'' ''Unable to extract containerName with provided information.''"
proof -
  let ?raw = "exampleRaw\<lparr>raw_containerName := None, raw_createContainerIfNotExists := Some False\<rparr>"
  have i: "init exampleSDK ?raw
     = Inr (\<lparr>provider_config =
               \<lparr>account = ''acc'', accountKey = ''key'',
                serviceBaseURL = Some ''https://acc.blob.core.windows.net'',
                containerName = [], defaultPath = ''assets'', cdnBaseURL = Some [],
                createContainerIfNotExists = Some False\<rparr>,
             provider_client =
               \<lparr>sdk = exampleSDK, service_url = Some ''https://acc.blob.core.windows.net'',
                credential = \<lparr>accountName = ''acc'', sharedKey = ''key''\<rparr>\<rparr>\<rparr>, [])"
    by (simp add: init_eq init_config_def exampleRaw_def trimParam_simps trim_examples)
  have s: "\<not> sublist ''acc'' ''Unable to extract containerName with provided information.''"
    by code_simp
  show ?thesis
    using s by (simp add: i isPrivate_provider_def isPrivate_unnamed containers_def)
qed

text \<open>
  Claim C4, where the code departs from it. The host configures the access type
  \<open>blob\<close> and leaves auto-creation on, and the container is missing. \<open>isPrivate\<close> sends
  the existence query, creates the container, sends the existence query once more
  and reads the properties. The container is created with no public access, because
  \<open>createIfNotExists\<close> is called without an access option, and the answer is true:
  it does not agree with the configured access type.
\<close>

theorem isPrivate_ignores_configured_access_type:
  "raw_containerAccessType (exampleRaw\<lparr>raw_containerAccessType := Some Blob\<rparr>) = Some Blob
   \<and> containers emptyWorld ''media'' = None
   \<and> fst (isPrivate_provider
          (fst (projr (init exampleSDK (exampleRaw\<lparr>raw_containerAccessType := Some Blob\<rparr>))))
          emptyWorld) = Inr True
   \<and> containers (snd (isPrivate_provider
          (fst (projr (init exampleSDK (exampleRaw\<lparr>raw_containerAccessType := Some Blob\<rparr>))))
          emptyWorld)) ''media'' = Some None
   \<and> requests (snd (isPrivate_provider
          (fst (projr (init exampleSDK (exampleRaw\<lparr>raw_containerAccessType := Some Blob\<rparr>))))
          emptyWorld))
       = [Exists ''media'', CreateIfNotExists ''media'' None, Exists ''media'',
          GetProperties ''media'']
   \<and> \<not> consistentWithAccessType (Some Blob) True"
proof -
  let ?p = "fst (projr (init exampleSDK (exampleRaw\<lparr>raw_containerAccessType := Some Blob\<rparr>)))"
  note i = example_init [OF exampleRaw_updates(2) [of "Some Blob"]]
  have c: "containerName (provider_config ?p) = ''media''"
    "createContainerIfNotExists (provider_config ?p) = Some True"
    by (simp_all add: i)
  have h: "containerName (provider_config ?p) \<noteq> []"
    "containers emptyWorld (containerName (provider_config ?p)) = None"
    "unfaulted 4 emptyWorld"
    by (simp_all add: c world_eval)
  note r = isPrivate_autocreate [OF h(1,2) c(2) h(3), of "provider_client ?p"]
  show ?thesis
    unfolding isPrivate_provider_def r
    by (simp add: c consistentWithAccessType_def containers_def emptyWorld_def)
qed

section \<open>Replacement, upload and delete requests\<close>

lemma getSubstitution_plain:
  "CHR ''$'' \<notin> set templ \<Longrightarrow> getSubstitution matched preceding following templ = templ"
  by (induction matched preceding following templ rule: getSubstitution.induct) auto

lemma replace_plain:
  "CHR ''$'' \<notin> set replacement \<Longrightarrow> replace s pat replacement = replaceFirst s pat replacement"
  by (simp add: replace_def replaceFirst_def getSubstitution_plain split: option.splits)

lemma splitAtFirst_prefix: "splitAtFirst pat (pat @ rest) = Some ([], rest)"
proof (cases "pat @ rest")
  case Nil
  then show ?thesis by simp
next
  case (Cons c s)
  have "prefix pat (pat @ rest)" by simp
  then have "splitAtFirst pat (pat @ rest) = Some ([], drop (length pat) (pat @ rest))"
    unfolding Cons by simp
  then show ?thesis by simp
qed

lemma replaceFirst_prefix: "replaceFirst (pat @ rest) pat r = r @ rest"
  by (simp add: replaceFirst_def splitAtFirst_prefix)

lemma replace_prefix:
  "CHR ''$'' \<notin> set replacement \<Longrightarrow> replace (pat @ rest) pat replacement = replacement @ rest"
  by (simp add: replace_plain replaceFirst_prefix)

lemma uploadStream_eq:
  "uploadStream client content bs mb ct w =
     (let c = container_name (blob_container client); b = blob_name client;
          w' = sent (UploadStream c b) w in
      case (case faults w of [] \<Rightarrow> None | f # fs \<Rightarrow> f) of
        Some code \<Rightarrow> (Inl (RestError code), w')
      | None \<Rightarrow>
          (if containers w c = None then (Inl (RestError ''ContainerNotFound''), w')
           else (Inr (), w'\<lparr>blobs := (blobs w)((c, b) \<mapsto> (content, ct))\<rparr>)))"
  by (simp add: uploadStream_def request_eq Let_def split: option.splits)

lemma uploadStream_requests:
  "requests (snd (uploadStream client content bs mb ct w)) =
     requests w @ [UploadStream (container_name (blob_container client)) (blob_name client)]"
  by (simp add: uploadStream_eq Let_def split: option.splits)

lemma uploadStream_rejected:
  "fst (uploadStream client content bs mb ct w) = Inl e \<Longrightarrow>
     blobs (snd (uploadStream client content bs mb ct w)) = blobs w
     \<and> containers (snd (uploadStream client content bs mb ct w)) = containers w"
  by (auto simp: uploadStream_eq Let_def containers_def fun_eq_iff split: option.splits if_splits)

lemma uploadStream_written:
  "fst (uploadStream client content bs mb ct w) = Inr () \<Longrightarrow>
     blobs (snd (uploadStream client content bs mb ct w)) =
       (blobs w)((container_name (blob_container client), blob_name client) \<mapsto> (content, ct))"
  by (auto simp: uploadStream_eq Let_def split: option.splits if_splits)

lemma deleteIfExists_ok:
  assumes "containers w (container_name (blob_container client)) \<noteq> None" and "unfaulted 1 w"
  shows "deleteIfExists client w =
           (Inr (blobs w (container_name (blob_container client), blob_name client) \<noteq> None),
            (sent (DeleteIfExists (container_name (blob_container client)) (blob_name client)) w)
              \<lparr>blobs := (blobs w)((container_name (blob_container client), blob_name client) := None)\<rparr>)"
proof -
  have 1: "unfaulted (Suc 0) w" using assms(2) by simp
  show ?thesis
    using assms(1) unfaulted_request [OF 1]
    by (simp add: deleteIfExists_def Let_def)
qed

lemma deleteIfExists_missing:
  assumes "containers w (container_name (blob_container client)) = None" and "unfaulted 1 w"
  shows "deleteIfExists client w =
           (Inl (RestError ''ContainerNotFound''),
            sent (DeleteIfExists (container_name (blob_container client)) (blob_name client)) w)"
proof -
  have 1: "unfaulted (Suc 0) w" using assms(2) by simp
  show ?thesis
    using assms(1) unfaulted_request [OF 1]
    by (simp add: deleteIfExists_def Let_def)
qed

lemma client_url_blobClientOf:
  "client_url (blobClientOf svc c b) = blobUrlOf (sdk svc) (service_url svc) c b"
  by (simp add: client_url_def blobClientOf_def)

lemma generateSasUrl_blobClientOf:
  "generateSasUrl (blobClientOf svc c b) options =
     sasUrlOf (sdk svc) (credential svc) (service_url svc) c b options"
  by (simp add: generateSasUrl_def blobClientOf_def)

lemma handleDelete_ok:
  assumes "containers w (containerName config) \<noteq> None" and "unfaulted 1 w"
  shows "handleDelete config blobSvcClient file w =
           (Inr (),
            file\<lparr>url := client_url (blobClientOf blobSvcClient (containerName config)
                                     (getFileName (defaultPath config) file))\<rparr>,
            (sent (DeleteIfExists (containerName config) (getFileName (defaultPath config) file)) w)
              \<lparr>blobs := (blobs w)((containerName config, getFileName (defaultPath config) file) := None)\<rparr>)"
proof -
  let ?client = "blobClientOf blobSvcClient (containerName config)
                   (getFileName (defaultPath config) file)"
  have n: "containerName config \<noteq> []" using assms(1) by (auto simp: containers_def)
  have c: "containers w (container_name (blob_container ?client)) \<noteq> None"
    using assms(1) by (simp add: blobClientOf_def)
  have d: "deleteIfExists ?client w =
           (Inr (blobs w (containerName config, getFileName (defaultPath config) file) \<noteq> None),
            (sent (DeleteIfExists (containerName config) (getFileName (defaultPath config) file)) w)
              \<lparr>blobs := (blobs w)((containerName config, getFileName (defaultPath config) file) := None)\<rparr>)"
    using deleteIfExists_ok [OF c assms(2)] by (simp add: blobClientOf_def)
  show ?thesis
    using d
    by (simp add: handleDelete_def getContainerClient_named [OF n] getBlobClient_def Let_def
        blobClientOf_def)
qed

lemma handleDelete_missing:
  assumes "containerName config \<noteq> []" and "containers w (containerName config) = None"
    and "unfaulted 1 w"
  shows "handleDelete config blobSvcClient file w =
           (Inl (RestError ''ContainerNotFound''), file,
            sent (DeleteIfExists (containerName config) (getFileName (defaultPath config) file)) w)"
proof -
  let ?client = "blobClientOf blobSvcClient (containerName config)
                   (getFileName (defaultPath config) file)"
  have c: "containers w (container_name (blob_container ?client)) = None"
    using assms(2) by (simp add: blobClientOf_def)
  have d: "deleteIfExists ?client w =
           (Inl (RestError ''ContainerNotFound''),
            sent (DeleteIfExists (containerName config) (getFileName (defaultPath config) file)) w)"
    using deleteIfExists_missing [OF c assms(3)] by (simp add: blobClientOf_def)
  show ?thesis
    using d
    by (simp add: handleDelete_def getContainerClient_named [OF assms(1)] getBlobClient_def Let_def
        blobClientOf_def)
qed

lemma containers_blobs_update [simp]: "containers (w\<lparr>blobs := b\<rparr>) = containers w"
  by (simp add: containers_def fun_eq_iff)

lemma getFileName_url_update [simp]: "getFileName p (file\<lparr>url := u\<rparr>) = getFileName p file"
  by (simp add: getFileName_def)

lemma example_key: "getFileName ''assets'' exampleFile = ''assets/abc.png''"
  by (simp add: getFileName_def exampleFile_def trimParam_simps trim_def isWhiteSpace_def)

lemma example_file: "url exampleFile = ''stale''" "stream exampleFile = ''PNG''"
  "mime exampleFile = ''image/png''"
  by (simp_all add: exampleFile_def)

lemma example_plain_url:
  "blobUrlOf exampleSDK (Some ''https://acc.blob.core.windows.net'') ''media'' ''assets/abc.png''
     = ''https://acc.blob.core.windows.net/media/assets/abc.png''"
  by (simp add: exampleSDK_def appendToURLPath_def toString_def)

lemma example_signed_url:
  "sasUrlOf exampleSDK \<lparr>accountName = ''acc'', sharedKey = ''key''\<rparr>
     (Some ''https://acc.blob.core.windows.net'') ''media'' ''assets/abc.png''
     \<lparr>permissions = {Read}, expiresOn = e\<rparr>
     = ''https://acc.blob.core.windows.net/media/assets/abc.png?sp=r&se='' @ decimal (nat e) @
       ''&sig=SIGNED-BY-acc''"
  by (simp add: exampleSDK_def appendToURLPath_def toString_def permissionString_def)

lemma decimal_3000: "decimal 32503680000000 = ''32503680000000''"
  by (simp add: decimal.simps)



lemma example_replace_cdn:
  "replaceFirst ''https://acc.blob.core.windows.net/media/assets/abc.png''
     ''https://acc.blob.core.windows.net'' ''https://cdn.example.com''
     = ''https://cdn.example.com/media/assets/abc.png''"
  using replaceFirst_prefix [of "''https://acc.blob.core.windows.net''"
      "''/media/assets/abc.png''" "''https://cdn.example.com''"]
  by simp

lemma example_replace_dollar:
  "replace ''https://acc.blob.core.windows.net/media/assets/abc.png''
     ''https://acc.blob.core.windows.net'' ''https://cdn.example.com/$&''
     = ''https://cdn.example.com/https://acc.blob.core.windows.net/media/assets/abc.png''"
  by code_simp

section \<open>Delete\<close>

text \<open>
  Claim C5, as the code has it. For every file descriptor and every configuration
  (with or without an access type, with or without a CDN), when the configured container
  exists and the request reaches the service, \<open>handleDelete\<close> resolves without error
  whether or not the blob is there; afterwards there is no blob at the derived key,
  every other blob is as before, and the descriptor's URL is the plain URL of the blob
  client: not a signed URL and not rewritten to the CDN. Deleting again resolves again
  and changes no blob.
\<close>

theorem handleDelete_idempotent_plain_url:
  assumes "containers w (containerName config) \<noteq> None" and "unfaulted 1 w"
  shows "fst (handleDelete config blobSvcClient file w) = Inr ()
       \<and> blobs (snd (snd (handleDelete config blobSvcClient file w)))
            (containerName config, getFileName (defaultPath config) file) = None
       \<and> (\<forall>k. k \<noteq> (containerName config, getFileName (defaultPath config) file) \<longrightarrow>
             blobs (snd (snd (handleDelete config blobSvcClient file w))) k = blobs w k)
       \<and> containers (snd (snd (handleDelete config blobSvcClient file w))) = containers w
       \<and> requests (snd (snd (handleDelete config blobSvcClient file w))) =
           requests w @ [DeleteIfExists (containerName config) (getFileName (defaultPath config) file)]
       \<and> fst (snd (handleDelete config blobSvcClient file w)) =
           file\<lparr>url := client_url (blobClientOf blobSvcClient (containerName config)
                                     (getFileName (defaultPath config) file))\<rparr>
       \<and> client_url (blobClientOf blobSvcClient (containerName config)
                       (getFileName (defaultPath config) file)) =
           blobUrlOf (sdk blobSvcClient) (service_url blobSvcClient) (containerName config)
             (trim (defaultPath config) @ ''/'' @ hash file @ ext file)
       \<and> (unfaulted 2 w \<longrightarrow>
            fst (handleDelete config blobSvcClient
                   (fst (snd (handleDelete config blobSvcClient file w)))
                   (snd (snd (handleDelete config blobSvcClient file w)))) = Inr ()
          \<and> blobs (snd (snd (handleDelete config blobSvcClient
                   (fst (snd (handleDelete config blobSvcClient file w)))
                   (snd (snd (handleDelete config blobSvcClient file w))))))
              = blobs (snd (snd (handleDelete config blobSvcClient file w))))"
proof -
  let ?n = "containerName config"
  let ?k = "getFileName (defaultPath config) file"
  let ?u = "client_url (blobClientOf blobSvcClient ?n ?k)"
  let ?w' = "(sent (DeleteIfExists ?n ?k) w)\<lparr>blobs := (blobs w)((?n, ?k) := None)\<rparr>"
  note first = handleDelete_ok [OF assms, of blobSvcClient "file"]
  have u: "?u = blobUrlOf (sdk blobSvcClient) (service_url blobSvcClient) ?n
                  (trim (defaultPath config) @ ''/'' @ hash file @ ext file)"
    by (simp add: client_url_blobClientOf getFileName_def trimParam_simps)
  have again: "handleDelete config blobSvcClient (file\<lparr>url := ?u\<rparr>) ?w' =
                 (Inr (), file\<lparr>url := ?u\<rparr>,
                  (sent (DeleteIfExists ?n ?k) ?w')\<lparr>blobs := (blobs w)((?n, ?k) := None)\<rparr>)"
    if "unfaulted 2 w"
  proof -
    have c: "containers ?w' ?n \<noteq> None" using assms(1) by simp
    have "unfaulted (Suc (Suc 0)) w" using that by (simp add: numeral_2_eq_2)
    from unfaulted_request [OF this, of "DeleteIfExists ?n ?k"]
    have "unfaulted 1 ?w'" by (simp add: unfaulted_def)
    from handleDelete_ok [OF c this, of blobSvcClient "file\<lparr>url := ?u\<rparr>"]
    show ?thesis by simp
  qed
  show ?thesis
    unfolding first using again u by simp
qed

theorem handleDelete_idempotent_plain_url_witness:
  "containers (mediaWorld\<lparr>blobs := [(''media'', ''assets/abc.png'') \<mapsto> (''PNG'', ''image/png'')]\<rparr>)
     ''media'' \<noteq> None
   \<and> unfaulted 2 (mediaWorld\<lparr>blobs := [(''media'', ''assets/abc.png'') \<mapsto> (''PNG'', ''image/png'')]\<rparr>)
   \<and> fst (delete_001
        (fst (projr (init_001 exampleSDK
           (exampleRaw\<lparr>raw_cdnBaseURL := Some ''https://cdn.example.com'',
                       raw_containerAccessType := Some Private\<rparr>))))
        exampleFile
        (mediaWorld\<lparr>blobs := [(''media'', ''assets/abc.png'') \<mapsto> (''PNG'', ''image/png'')]\<rparr>)) = Inr ()
   \<and> url (fst (snd (delete_001
        (fst (projr (init_001 exampleSDK
           (exampleRaw\<lparr>raw_cdnBaseURL := Some ''https://cdn.example.com'',
                       raw_containerAccessType := Some Private\<rparr>))))
        exampleFile
        (mediaWorld\<lparr>blobs := [(''media'', ''assets/abc.png'') \<mapsto> (''PNG'', ''image/png'')]\<rparr>))))
       = ''https://acc.blob.core.windows.net/media/assets/abc.png''
   \<and> blobs (snd (snd (delete_001
        (fst (projr (init_001 exampleSDK
           (exampleRaw\<lparr>raw_cdnBaseURL := Some ''https://cdn.example.com'',
                       raw_containerAccessType := Some Private\<rparr>))))
        exampleFile
        (mediaWorld\<lparr>blobs := [(''media'', ''assets/abc.png'') \<mapsto> (''PNG'', ''image/png'')]\<rparr>))))
       (''media'', ''assets/abc.png'') = None"
proof -
  let ?raw = "exampleRaw\<lparr>raw_cdnBaseURL := Some ''https://cdn.example.com'',
                          raw_containerAccessType := Some Private\<rparr>"
  let ?p = "fst (projr (init_001 exampleSDK ?raw))"
  let ?w = "mediaWorld\<lparr>blobs := [(''media'', ''assets/abc.png'') \<mapsto> (''PNG'', ''image/png'')]\<rparr>"
  note i = example_init_001 [OF exampleRaw_updates(5) [where cdn = "Some ''https://cdn.example.com''" and t = "Some Private"]]
  have c: "containerName (provider_config ?p) = ''media''" "defaultPath (provider_config ?p) = ''assets''"
    "sdk (provider_client ?p) = exampleSDK"
    "service_url (provider_client ?p) = Some ''https://acc.blob.core.windows.net''"
    by (simp_all add: i)
  have h: "containers ?w (containerName (provider_config ?p)) \<noteq> None" "unfaulted 1 ?w" "unfaulted 2 ?w"
    by (simp_all add: c world_eval)
  show ?thesis
    using handleDelete_idempotent_plain_url [OF h(1,2), of "provider_client ?p" exampleFile] h
    by (simp add: delete_001_def c example_key example_plain_url client_url_blobClientOf)
qed

text \<open>
  The claim as stated fails when the container is missing: the key is absent, and yet
  delete rejects, with the service's \<open>ContainerNotFound\<close>, and leaves the descriptor's
  URL as it was.
\<close>

theorem handleDelete_missing_container:
  "containers emptyWorld ''media'' = None
   \<and> blobs emptyWorld (''media'', ''assets/abc.png'') = None
   \<and> url exampleFile = ''stale''
   \<and> delete_provider (fst (projr (init exampleSDK exampleRaw))) exampleFile emptyWorld
     = (Inl (RestError ''ContainerNotFound''), exampleFile,
        sent (DeleteIfExists ''media'' ''assets/abc.png'') emptyWorld)
   \<and> delete_001 (fst (projr (init_001 exampleSDK exampleRaw))) exampleFile emptyWorld
     = (Inl (RestError ''ContainerNotFound''), exampleFile,
        sent (DeleteIfExists ''media'' ''assets/abc.png'') emptyWorld)"
proof -
  let ?p = "fst (projr (init exampleSDK exampleRaw))"
  let ?q = "fst (projr (init_001 exampleSDK exampleRaw))"
  note i = example_init [OF exampleRaw_updates(1)]
  note j = example_init_001 [OF exampleRaw_updates(1)]
  have c: "containerName (provider_config ?p) = ''media''" "defaultPath (provider_config ?p) = ''assets''"
    "containerName (provider_config ?q) = ''media''" "defaultPath (provider_config ?q) = ''assets''"
    by (simp_all add: i j)
  have h: "containerName (provider_config ?p) \<noteq> []"
    "containers emptyWorld (containerName (provider_config ?p)) = None"
    "containerName (provider_config ?q) \<noteq> []"
    "containers emptyWorld (containerName (provider_config ?q)) = None"
    "unfaulted 1 emptyWorld"
    by (simp_all add: c world_eval)
  show ?thesis
    using handleDelete_missing [OF h(1,2,5), of "provider_client ?p" exampleFile]
      handleDelete_missing [OF h(3,4,5), of "provider_client ?q" exampleFile]
    by (simp add: delete_provider_def delete_001_def c example_key example_file world_eval)
qed

section \<open>Signed URL retrieval\<close>







section \<open>Upload\<close>

lemma handleUpload_named:
  assumes "containerName config \<noteq> []"
  shows "handleUpload config blobSvcClient file w =
     (let client = blobClientOf blobSvcClient (containerName config)
                     (getFileName (defaultPath config) file);
          sending = uploadStream client (stream file) bufferSize maxBuffers (mime file) w
      in (fst sending,
          file\<lparr>url :=
            (if truthy (cdnBaseURL config)
             then replace (client_url client) (toString (serviceBaseURL config))
                    (toString (cdnBaseURL config))
             else client_url client)\<rparr>,
          snd sending))"
  by (simp add: handleUpload_def getContainerClient_named [OF assms] getBlockBlobClient_def
      blobClientOf_def Let_def split: prod.splits)

lemma handleUpload_001_named:
  assumes "containerName config \<noteq> []"
  shows "handleUpload_001 config blobSvcClient file w =
     (let client = blobClientOf blobSvcClient (containerName config)
                     (getFileName (defaultPath config) file);
          sending = uploadStream client (stream file) bufferSize maxBuffers (mime file) w;
          url = (if containerAccessType config = Some Private
                 then generateSasUrl client \<lparr>permissions = {Read}, expiresOn = Date_3000_0 w\<rparr>
                 else client_url client)
      in (fst sending,
          file\<lparr>url :=
            (if truthy (cdnBaseURL config)
             then replace url (toString (serviceBaseURL config)) (toString (cdnBaseURL config))
             else url)\<rparr>,
          snd sending))"
  by (simp add: handleUpload_001_def getContainerClient_001_def getContainerClient_named [OF assms]
      getBlockBlobClient_def blobClientOf_def BlobSASPermissions_from_read_def Let_def
      split: prod.splits)

lemma handleUpload_unnamed:
  "containerName config = [] \<Longrightarrow>
     handleUpload config blobSvcClient file w =
       (Inl (Error ''Unable to extract containerName with provided information.''), file, w)"
  by (simp add: handleUpload_def getContainerClient_unnamed)

lemma handleUpload_001_unnamed:
  "containerName config = [] \<Longrightarrow>
     handleUpload_001 config blobSvcClient file w =
       (Inl (Error ''Unable to extract containerName with provided information.''), file, w)"
  by (simp add: handleUpload_001_def getContainerClient_001_def getContainerClient_unnamed)

lemma blobClientOf_simps [simp]:
  "container_name (blob_container (blobClientOf svc c b)) = c"
  "blob_name (blobClientOf svc c b) = b"
  by (simp_all add: blobClientOf_def)

lemma example_providers:
  "provider_config (fst (projr (init exampleSDK exampleRaw))) =
     \<lparr>account = ''acc'', accountKey = ''key'',
      serviceBaseURL = Some ''https://acc.blob.core.windows.net'',
      containerName = ''media'', defaultPath = ''assets'', cdnBaseURL = Some [],
      createContainerIfNotExists = Some True\<rparr>"
  "provider_client (fst (projr (init exampleSDK exampleRaw))) =
     \<lparr>sdk = exampleSDK, service_url = Some ''https://acc.blob.core.windows.net'',
      credential = \<lparr>accountName = ''acc'', sharedKey = ''key''\<rparr>\<rparr>"
  "provider_config (fst (projr (init exampleSDK (exampleRaw\<lparr>raw_cdnBaseURL := Some c\<rparr>)))) =
     \<lparr>account = ''acc'', accountKey = ''key'',
      serviceBaseURL = Some ''https://acc.blob.core.windows.net'',
      containerName = ''media'', defaultPath = ''assets'', cdnBaseURL = Some (trim c),
      createContainerIfNotExists = Some True\<rparr>"
  "provider_client (fst (projr (init exampleSDK (exampleRaw\<lparr>raw_cdnBaseURL := Some c\<rparr>)))) =
     \<lparr>sdk = exampleSDK, service_url = Some ''https://acc.blob.core.windows.net'',
      credential = \<lparr>accountName = ''acc'', sharedKey = ''key''\<rparr>\<rparr>"
  "provider_config (fst (projr (init exampleSDK (exampleRaw\<lparr>raw_containerAccessType := t\<rparr>)))) =
     \<lparr>account = ''acc'', accountKey = ''key'',
      serviceBaseURL = Some ''https://acc.blob.core.windows.net'',
      containerName = ''media'', defaultPath = ''assets'', cdnBaseURL = Some [],
      createContainerIfNotExists = Some True\<rparr>"
  "provider_client (fst (projr (init exampleSDK (exampleRaw\<lparr>raw_containerAccessType := t\<rparr>)))) =
     \<lparr>sdk = exampleSDK, service_url = Some ''https://acc.blob.core.windows.net'',
      credential = \<lparr>accountName = ''acc'', sharedKey = ''key''\<rparr>\<rparr>"
  by (simp_all add: example_init [OF exampleRaw_updates(1)]
      example_init [OF exampleRaw_updates(4)] example_init [OF exampleRaw_updates(2)]
      trimParam_simps)

lemma example_providers_001:
  "provider_config (fst (projr (init_001 exampleSDK exampleRaw))) =
     \<lparr>account = ''acc'', accountKey = ''key'',
      serviceBaseURL = Some ''https://acc.blob.core.windows.net'',
      containerName = ''media'', defaultPath = ''assets'', cdnBaseURL = Some [],
      createContainerIfNotExists = Some True, containerAccessType = None\<rparr>"
  "provider_client (fst (projr (init_001 exampleSDK exampleRaw))) =
     \<lparr>sdk = exampleSDK, service_url = Some ''https://acc.blob.core.windows.net'',
      credential = \<lparr>accountName = ''acc'', sharedKey = ''key''\<rparr>\<rparr>"
  "provider_config (fst (projr (init_001 exampleSDK (exampleRaw\<lparr>raw_containerAccessType := t\<rparr>)))) =
     \<lparr>account = ''acc'', accountKey = ''key'',
      serviceBaseURL = Some ''https://acc.blob.core.windows.net'',
      containerName = ''media'', defaultPath = ''assets'', cdnBaseURL = Some [],
      createContainerIfNotExists = Some True, containerAccessType = t\<rparr>"
  "provider_client (fst (projr (init_001 exampleSDK (exampleRaw\<lparr>raw_containerAccessType := t\<rparr>)))) =
     \<lparr>sdk = exampleSDK, service_url = Some ''https://acc.blob.core.windows.net'',
      credential = \<lparr>accountName = ''acc'', sharedKey = ''key''\<rparr>\<rparr>"
  "provider_config (fst (projr (init_001 exampleSDK
      (exampleRaw\<lparr>raw_cdnBaseURL := Some c, raw_containerAccessType := t\<rparr>)))) =
     \<lparr>account = ''acc'', accountKey = ''key'',
      serviceBaseURL = Some ''https://acc.blob.core.windows.net'',
      containerName = ''media'', defaultPath = ''assets'', cdnBaseURL = Some (trim c),
      createContainerIfNotExists = Some True, containerAccessType = t\<rparr>"
  "provider_client (fst (projr (init_001 exampleSDK
      (exampleRaw\<lparr>raw_cdnBaseURL := Some c, raw_containerAccessType := t\<rparr>)))) =
     \<lparr>sdk = exampleSDK, service_url = Some ''https://acc.blob.core.windows.net'',
      credential = \<lparr>accountName = ''acc'', sharedKey = ''key''\<rparr>\<rparr>"
  by (simp_all add: example_init_001 [OF exampleRaw_updates(1)]
      example_init_001 [OF exampleRaw_updates(2)] example_init_001 [OF exampleRaw_updates(5)]
      trimParam_simps)

lemma example_unnamed:
  "provider_config (fst (projr (init exampleSDK
      (exampleRaw\<lparr>raw_containerName := None, raw_createContainerIfNotExists := Some False\<rparr>)))) =
     \<lparr>account = ''acc'', accountKey = ''key'',
      serviceBaseURL = Some ''https://acc.blob.core.windows.net'',
      containerName = [], defaultPath = ''assets'', cdnBaseURL = Some [],
      createContainerIfNotExists = Some False\<rparr>"
  by (simp add: init_eq init_config_def exampleRaw_def trimParam_simps trim_examples)

lemma example_upload_rejected:
  "uploadStream (blobClientOf svc ''media'' ''assets/abc.png'') content bs mb ct
     (mediaWorld\<lparr>faults := [Some ''AuthenticationFailed'']\<rparr>)
   = (Inl (RestError ''AuthenticationFailed''),
      sent (UploadStream ''media'' ''assets/abc.png'')
        (mediaWorld\<lparr>faults := [Some ''AuthenticationFailed'']\<rparr>))"
  by (simp add: uploadStream_eq Let_def)

lemma example_upload_written:
  "uploadStream (blobClientOf svc ''media'' ''assets/abc.png'') content bs mb ct mediaWorld
   = (Inr (), (sent (UploadStream ''media'' ''assets/abc.png'') mediaWorld)
        \<lparr>blobs := (blobs mediaWorld)((''media'', ''assets/abc.png'') \<mapsto> (content, ct))\<rparr>)"
  by (simp add: uploadStream_eq Let_def world_eval)

lemma Date_3000_0_examples:
  "Date_3000_0 mediaWorld = 32503680000000"
  "Date_3000_0 (mediaWorld\<lparr>faults := fs\<rparr>) = 32503680000000"
  by (simp_all add: Date_3000_0_def UTC_def MakeDate_def msPerDay_def world_eval)

text \<open>
  Claim C10. In both source files, an upload with a configured container name computes
  the new URL, assigns it to the descriptor and only then sends the content: the call
  returns the outcome of that one write request together with the descriptor carrying
  the new URL. The write request is the last request of the call; when it is answered,
  the blob at the derived key holds the content of the descriptor; when it is rejected,
  the error reaches the caller, no blob has changed and the descriptor nevertheless
  carries the new URL. With no container name configured the SDK throws before
  anything is assigned or sent.
\<close>

theorem handleUpload_url_assigned_before_write:
  "(containerName config \<noteq> [] \<longrightarrow>
      (let client = blobClientOf blobSvcClient (containerName config)
                      (getFileName (defaultPath config) file);
           sending = uploadStream client (stream file) bufferSize maxBuffers (mime file) w;
           newUrl = (if truthy (cdnBaseURL config)
                     then replace (client_url client) (toString (serviceBaseURL config))
                            (toString (cdnBaseURL config))
                     else client_url client)
       in handleUpload config blobSvcClient file w = (fst sending, file\<lparr>url := newUrl\<rparr>, snd sending)
        \<and> requests (snd sending) =
            requests w @ [UploadStream (containerName config) (getFileName (defaultPath config) file)]
        \<and> (fst sending = Inr () \<longrightarrow>
             blobs (snd sending) =
               (blobs w)((containerName config, getFileName (defaultPath config) file)
                  \<mapsto> (stream file, mime file)))
        \<and> (\<forall>e. fst sending = Inl e \<longrightarrow>
             fst (handleUpload config blobSvcClient file w) = Inl e
           \<and> url (fst (snd (handleUpload config blobSvcClient file w))) = newUrl
           \<and> blobs (snd (snd (handleUpload config blobSvcClient file w))) = blobs w)))
   \<and> (containerName config = [] \<longrightarrow>
        handleUpload config blobSvcClient file w =
          (Inl (Error ''Unable to extract containerName with provided information.''), file, w))
   \<and> (containerName config1 \<noteq> [] \<longrightarrow>
      (let client = blobClientOf blobSvcClient1 (containerName config1)
                      (getFileName (defaultPath config1) file);
           sending = uploadStream client (stream file) bufferSize maxBuffers (mime file) w;
           chosen = (if containerAccessType config1 = Some Private
                     then generateSasUrl client
                            \<lparr>permissions = {Read}, expiresOn = Date_3000_0 w\<rparr>
                     else client_url client);
           newUrl = (if truthy (cdnBaseURL config1)
                     then replace chosen (toString (serviceBaseURL config1))
                            (toString (cdnBaseURL config1))
                     else chosen)
       in handleUpload_001 config1 blobSvcClient1 file w =
            (fst sending, file\<lparr>url := newUrl\<rparr>, snd sending)
        \<and> requests (snd sending) =
            requests w @ [UploadStream (containerName config1) (getFileName (defaultPath config1) file)]
        \<and> (fst sending = Inr () \<longrightarrow>
             blobs (snd sending) =
               (blobs w)((containerName config1, getFileName (defaultPath config1) file)
                  \<mapsto> (stream file, mime file)))
        \<and> (\<forall>e. fst sending = Inl e \<longrightarrow>
             fst (handleUpload_001 config1 blobSvcClient1 file w) = Inl e
           \<and> url (fst (snd (handleUpload_001 config1 blobSvcClient1 file w))) = newUrl
           \<and> blobs (snd (snd (handleUpload_001 config1 blobSvcClient1 file w))) = blobs w)))
   \<and> (containerName config1 = [] \<longrightarrow>
        handleUpload_001 config1 blobSvcClient1 file w =
          (Inl (Error ''Unable to extract containerName with provided information.''), file, w))"
proof -
  have a: ?thesis if "containerName config \<noteq> []" "containerName config1 \<noteq> []"
    using that
    by (simp add: handleUpload_named handleUpload_001_named Let_def uploadStream_requests
        uploadStream_written uploadStream_rejected)
  have b: ?thesis if "containerName config = []" "containerName config1 \<noteq> []"
    using that
    by (simp add: handleUpload_unnamed handleUpload_001_named Let_def uploadStream_requests
        uploadStream_written uploadStream_rejected)
  have c: ?thesis if "containerName config \<noteq> []" "containerName config1 = []"
    using that
    by (simp add: handleUpload_named handleUpload_001_unnamed Let_def uploadStream_requests
        uploadStream_written uploadStream_rejected)
  have d: ?thesis if "containerName config = []" "containerName config1 = []"
    using that
    by (simp add: handleUpload_unnamed handleUpload_001_unnamed)
  show ?thesis using a b c d by blast
qed


theorem handleUpload_url_assigned_before_write_witness:
  "url exampleFile = ''stale''
   \<and> upload (fst (projr (init exampleSDK exampleRaw))) exampleFile
        (mediaWorld\<lparr>faults := [Some ''AuthenticationFailed'']\<rparr>)
     = (Inl (RestError ''AuthenticationFailed''),
        exampleFile\<lparr>url := ''https://acc.blob.core.windows.net/media/assets/abc.png''\<rparr>,
        sent (UploadStream ''media'' ''assets/abc.png'')
          (mediaWorld\<lparr>faults := [Some ''AuthenticationFailed'']\<rparr>))
   \<and> upload_001
        (fst (projr (init_001 exampleSDK (exampleRaw\<lparr>raw_containerAccessType := Some Private\<rparr>))))
        exampleFile (mediaWorld\<lparr>faults := [Some ''AuthenticationFailed'']\<rparr>)
     = (Inl (RestError ''AuthenticationFailed''),
        exampleFile\<lparr>url :=
          ''https://acc.blob.core.windows.net/media/assets/abc.png?sp=r&se=32503680000000&sig=SIGNED-BY-acc''\<rparr>,
        sent (UploadStream ''media'' ''assets/abc.png'')
          (mediaWorld\<lparr>faults := [Some ''AuthenticationFailed'']\<rparr>))
   \<and> fst (upload (fst (projr (init exampleSDK exampleRaw))) exampleFile mediaWorld) = Inr ()
   \<and> blobs (snd (snd (upload (fst (projr (init exampleSDK exampleRaw))) exampleFile mediaWorld)))
        (''media'', ''assets/abc.png'') = Some (''PNG'', ''image/png'')
   \<and> upload
        (fst (projr (init exampleSDK
           (exampleRaw\<lparr>raw_containerName := None, raw_createContainerIfNotExists := Some False\<rparr>))))
        exampleFile mediaWorld
     = (Inl (Error ''Unable to extract containerName with provided information.''),
        exampleFile, mediaWorld)"
proof -
  let ?p = "fst (projr (init exampleSDK exampleRaw))"
  let ?q = "fst (projr (init_001 exampleSDK (exampleRaw\<lparr>raw_containerAccessType := Some Private\<rparr>)))"
  let ?e = "fst (projr (init exampleSDK
           (exampleRaw\<lparr>raw_containerName := None, raw_createContainerIfNotExists := Some False\<rparr>)))"
  let ?w = "mediaWorld\<lparr>faults := [Some ''AuthenticationFailed'']\<rparr>"
  note p = example_providers(1,2)
  note q = example_providers_001(3,4) [of "Some Private"]
  have 1: "upload ?p exampleFile ?w
     = (Inl (RestError ''AuthenticationFailed''),
        exampleFile\<lparr>url := ''https://acc.blob.core.windows.net/media/assets/abc.png''\<rparr>,
        sent (UploadStream ''media'' ''assets/abc.png'') ?w)"
    and 2: "upload_001 ?q exampleFile ?w
     = (Inl (RestError ''AuthenticationFailed''),
        exampleFile\<lparr>url :=
          ''https://acc.blob.core.windows.net/media/assets/abc.png?sp=r&se=32503680000000&sig=SIGNED-BY-acc''\<rparr>,
        sent (UploadStream ''media'' ''assets/abc.png'') ?w)"
    using handleUpload_url_assigned_before_write
      [of "provider_config ?p" "provider_client ?p" exampleFile ?w
          "provider_config ?q" "provider_client ?q"]
    by (simp_all add: upload_def upload_001_def p q Let_def truthy_def example_key
        example_upload_rejected client_url_blobClientOf generateSasUrl_blobClientOf
        example_plain_url example_signed_url decimal_3000 Date_3000_0_examples)
  have 3: "upload ?p exampleFile mediaWorld
     = (Inr (), exampleFile\<lparr>url := ''https://acc.blob.core.windows.net/media/assets/abc.png''\<rparr>,
        (sent (UploadStream ''media'' ''assets/abc.png'') mediaWorld)
          \<lparr>blobs := (blobs mediaWorld)((''media'', ''assets/abc.png'') \<mapsto> (''PNG'', ''image/png''))\<rparr>)"
    and 4: "upload ?e exampleFile mediaWorld
     = (Inl (Error ''Unable to extract containerName with provided information.''),
        exampleFile, mediaWorld)"
    using handleUpload_url_assigned_before_write
      [of "provider_config ?p" "provider_client ?p" exampleFile mediaWorld
          "provider_config ?q" "provider_client ?q"]
      handleUpload_url_assigned_before_write
      [of "provider_config ?e" "provider_client ?e" exampleFile mediaWorld
          "provider_config ?q" "provider_client ?q"]
    by (simp_all add: upload_def p q example_unnamed Let_def truthy_def example_key
        example_upload_written client_url_blobClientOf example_plain_url example_file)
  show ?thesis
    unfolding 1 2 3 4 by (simp add: example_file)
qed

lemma example_unnamed_001:
  "provider_config (fst (projr (init_001 exampleSDK
      (exampleRaw\<lparr>raw_containerName := None, raw_createContainerIfNotExists := Some False\<rparr>)))) =
     \<lparr>account = ''acc'', accountKey = ''key'',
      serviceBaseURL = Some ''https://acc.blob.core.windows.net'',
      containerName = [], defaultPath = ''assets'', cdnBaseURL = Some [],
      createContainerIfNotExists = Some False, containerAccessType = None\<rparr>"
  by (simp add: init_001_eq init_config_001_def exampleRaw_def trimParam_simps trim_examples)

lemma example_replace_cdn_signed:
  "replaceFirst
     ''https://acc.blob.core.windows.net/media/assets/abc.png?sp=r&se=32503680000000&sig=SIGNED-BY-acc''
     ''https://acc.blob.core.windows.net'' ''https://cdn.example.com''
     = ''https://cdn.example.com/media/assets/abc.png?sp=r&se=32503680000000&sig=SIGNED-BY-acc''"
  using replaceFirst_prefix [of "''https://acc.blob.core.windows.net''"
      "''/media/assets/abc.png?sp=r&se=32503680000000&sig=SIGNED-BY-acc''"
      "''https://cdn.example.com''"]
  by simp

lemma example_cdn_plain: "CHR ''$'' \<notin> set ''https://cdn.example.com''"
  by simp

text \<open>
  Claim C1, as the code has it. In the second source file, which signs at upload, for
  every upload with a configured container name and a configured access type: with no
  CDN base URL, the URL written to the descriptor is the URL the SDK signs for the blob
  at the derived key, with the read permission alone and the expiry 1 January 3000,
  00:00 local time, when the access type is \<open>private\<close>, and the plain URL of the blob
  when it is \<open>blob\<close> or \<open>container\<close>. So, where the signed URL differs from the plain
  one, the written URL is the signed one if and only if the access type is \<open>private\<close>.
  With a CDN base URL that is not empty and has no dollar sign, the written URL is that
  URL with the first occurrence of the service base URL replaced by the CDN base URL.
  In \<open>src/index.ts\<close>, which reads no access type and signs in \<open>getSignedUrl\<close>, the
  written URL is the plain URL, under the same CDN rule. With no container name the
  call throws and leaves the descriptor as it was. \<open>upload\<close> and \<open>uploadStream\<close> are
  the same function.
\<close>

theorem handleUpload_url_by_access_type:
  "(containerName config \<noteq> [] \<longrightarrow>
      (let client = blobClientOf blobSvcClient (containerName config)
                      (getFileName (defaultPath config) file);
           signed = generateSasUrl client \<lparr>permissions = {Read}, expiresOn = Date_3000_0 w\<rparr>;
           plain = client_url client;
           written = url (fst (snd (handleUpload_001 config blobSvcClient file w)))
       in (\<not> truthy (cdnBaseURL config) \<longrightarrow>
             (containerAccessType config = Some Private \<longrightarrow> written = signed)
           \<and> (containerAccessType config = Some Blob \<or> containerAccessType config = Some Container
                \<longrightarrow> written = plain)
           \<and> (containerAccessType config \<noteq> None \<and> signed \<noteq> plain \<longrightarrow>
                (written = signed \<longleftrightarrow> containerAccessType config = Some Private)))
        \<and> (\<forall>cdn. cdnBaseURL config = Some cdn \<and> cdn \<noteq> [] \<and> CHR ''$'' \<notin> set cdn \<longrightarrow>
             (containerAccessType config = Some Private \<longrightarrow>
                written = replaceFirst signed (toString (serviceBaseURL config)) cdn)
           \<and> (containerAccessType config = Some Blob \<or> containerAccessType config = Some Container
                \<longrightarrow> written = replaceFirst plain (toString (serviceBaseURL config)) cdn))))
   \<and> (containerName config = [] \<longrightarrow>
        fst (snd (handleUpload_001 config blobSvcClient file w)) = file)
   \<and> Date_3000_0 w = 32503680000000 - localTZA w 32503680000000 False
   \<and> (containerName config0 \<noteq> [] \<longrightarrow>
      (let plain = client_url (blobClientOf blobSvcClient0 (containerName config0)
                                 (getFileName (defaultPath config0) file));
           written = url (fst (snd (handleUpload config0 blobSvcClient0 file w)))
       in (\<not> truthy (cdnBaseURL config0) \<longrightarrow> written = plain)
        \<and> (\<forall>cdn. cdnBaseURL config0 = Some cdn \<and> cdn \<noteq> [] \<and> CHR ''$'' \<notin> set cdn \<longrightarrow>
             written = replaceFirst plain (toString (serviceBaseURL config0)) cdn)))
   \<and> (containerName config0 = [] \<longrightarrow>
        fst (snd (handleUpload config0 blobSvcClient0 file w)) = file)
   \<and> upload_001 p file w = handleUpload_001 (provider_config p) (provider_client p) file w
   \<and> uploadStream_001 p file w = handleUpload_001 (provider_config p) (provider_client p) file w
   \<and> upload p0 file w = handleUpload (provider_config p0) (provider_client p0) file w
   \<and> uploadStream_provider p0 file w = handleUpload (provider_config p0) (provider_client p0) file w"
proof -
  have a: "containerName config \<noteq> [] \<longrightarrow>
      (let client = blobClientOf blobSvcClient (containerName config)
                      (getFileName (defaultPath config) file);
           signed = generateSasUrl client \<lparr>permissions = {Read}, expiresOn = Date_3000_0 w\<rparr>;
           plain = client_url client;
           written = url (fst (snd (handleUpload_001 config blobSvcClient file w)))
       in (\<not> truthy (cdnBaseURL config) \<longrightarrow>
             (containerAccessType config = Some Private \<longrightarrow> written = signed)
           \<and> (containerAccessType config = Some Blob \<or> containerAccessType config = Some Container
                \<longrightarrow> written = plain)
           \<and> (containerAccessType config \<noteq> None \<and> signed \<noteq> plain \<longrightarrow>
                (written = signed \<longleftrightarrow> containerAccessType config = Some Private)))
        \<and> (\<forall>cdn. cdnBaseURL config = Some cdn \<and> cdn \<noteq> [] \<and> CHR ''$'' \<notin> set cdn \<longrightarrow>
             (containerAccessType config = Some Private \<longrightarrow>
                written = replaceFirst signed (toString (serviceBaseURL config)) cdn)
           \<and> (containerAccessType config = Some Blob \<or> containerAccessType config = Some Container
                \<longrightarrow> written = replaceFirst plain (toString (serviceBaseURL config)) cdn)))"
    by (auto simp: handleUpload_001_named Let_def truthy_def toString_def replace_plain)
  have b: "containerName config0 \<noteq> [] \<longrightarrow>
      (let plain = client_url (blobClientOf blobSvcClient0 (containerName config0)
                                 (getFileName (defaultPath config0) file));
           written = url (fst (snd (handleUpload config0 blobSvcClient0 file w)))
       in (\<not> truthy (cdnBaseURL config0) \<longrightarrow> written = plain)
        \<and> (\<forall>cdn. cdnBaseURL config0 = Some cdn \<and> cdn \<noteq> [] \<and> CHR ''$'' \<notin> set cdn \<longrightarrow>
             written = replaceFirst plain (toString (serviceBaseURL config0)) cdn))"
    by (auto simp: handleUpload_named Let_def truthy_def toString_def replace_plain)
  have c: "Date_3000_0 w = 32503680000000 - localTZA w 32503680000000 False"
    by (simp add: Date_3000_0_def UTC_def MakeDate_def msPerDay_def)
  show ?thesis
    using a b c
    by (simp add: handleUpload_unnamed handleUpload_001_unnamed upload_001_def uploadStream_001_def
        upload_def uploadStream_provider_def)
qed

theorem handleUpload_url_by_access_type_witness:
  "url (fst (snd (upload_001
      (fst (projr (init_001 exampleSDK (exampleRaw\<lparr>raw_containerAccessType := Some Private\<rparr>))))
      exampleFile mediaWorld)))
     = ''https://acc.blob.core.windows.net/media/assets/abc.png?sp=r&se=32503680000000&sig=SIGNED-BY-acc''
   \<and> url (fst (snd (upload_001
      (fst (projr (init_001 exampleSDK (exampleRaw\<lparr>raw_containerAccessType := Some Blob\<rparr>))))
      exampleFile mediaWorld)))
     = ''https://acc.blob.core.windows.net/media/assets/abc.png''
   \<and> url (fst (snd (upload_001
      (fst (projr (init_001 exampleSDK
         (exampleRaw\<lparr>raw_cdnBaseURL := Some ''https://cdn.example.com'',
                     raw_containerAccessType := Some Private\<rparr>))))
      exampleFile mediaWorld)))
     = ''https://cdn.example.com/media/assets/abc.png?sp=r&se=32503680000000&sig=SIGNED-BY-acc''
   \<and> url (fst (snd (upload
      (fst (projr (init exampleSDK (exampleRaw\<lparr>raw_cdnBaseURL := Some ''https://cdn.example.com''\<rparr>))))
      exampleFile mediaWorld)))
     = ''https://cdn.example.com/media/assets/abc.png''
   \<and> url (fst (snd (upload (fst (projr (init exampleSDK exampleRaw))) exampleFile mediaWorld)))
     = ''https://acc.blob.core.windows.net/media/assets/abc.png''
   \<and> fst (snd (upload_001
      (fst (projr (init_001 exampleSDK
         (exampleRaw\<lparr>raw_containerName := None, raw_createContainerIfNotExists := Some False\<rparr>))))
      exampleFile mediaWorld)) = exampleFile
   \<and> fst (snd (upload
      (fst (projr (init exampleSDK
         (exampleRaw\<lparr>raw_containerName := None, raw_createContainerIfNotExists := Some False\<rparr>))))
      exampleFile mediaWorld)) = exampleFile"
proof -
  let ?a = "fst (projr (init_001 exampleSDK (exampleRaw\<lparr>raw_containerAccessType := Some Private\<rparr>)))"
  let ?b = "fst (projr (init_001 exampleSDK (exampleRaw\<lparr>raw_containerAccessType := Some Blob\<rparr>)))"
  let ?c = "fst (projr (init_001 exampleSDK
         (exampleRaw\<lparr>raw_cdnBaseURL := Some ''https://cdn.example.com'',
                     raw_containerAccessType := Some Private\<rparr>)))"
  let ?d = "fst (projr (init exampleSDK (exampleRaw\<lparr>raw_cdnBaseURL := Some ''https://cdn.example.com''\<rparr>)))"
  let ?p = "fst (projr (init exampleSDK exampleRaw))"
  let ?e = "fst (projr (init_001 exampleSDK
         (exampleRaw\<lparr>raw_containerName := None, raw_createContainerIfNotExists := Some False\<rparr>)))"
  let ?f = "fst (projr (init exampleSDK
         (exampleRaw\<lparr>raw_containerName := None, raw_createContainerIfNotExists := Some False\<rparr>)))"
  note a = example_providers_001(3,4) [of "Some Private"]
  note b = example_providers_001(3,4) [of "Some Blob"]
  note c = example_providers_001(5,6) [where c = "''https://cdn.example.com''" and t = "Some Private"]
  note d = example_providers(3,4) [where c = "''https://cdn.example.com''"]
  note p = example_providers(1,2)
  have 1: "url (fst (snd (upload_001 ?a exampleFile mediaWorld)))
     = ''https://acc.blob.core.windows.net/media/assets/abc.png?sp=r&se=32503680000000&sig=SIGNED-BY-acc''"
    and 5: "url (fst (snd (upload ?p exampleFile mediaWorld)))
     = ''https://acc.blob.core.windows.net/media/assets/abc.png''"
    using handleUpload_url_by_access_type
      [of "provider_config ?a" "provider_client ?a" exampleFile mediaWorld
          "provider_config ?p" "provider_client ?p" ?a ?p]
    by (simp_all add: a p Let_def truthy_def example_key client_url_blobClientOf
        generateSasUrl_blobClientOf example_plain_url example_signed_url decimal_3000
        Date_3000_0_examples)
  have 2: "url (fst (snd (upload_001 ?b exampleFile mediaWorld)))
     = ''https://acc.blob.core.windows.net/media/assets/abc.png''"
    using handleUpload_url_by_access_type
      [of "provider_config ?b" "provider_client ?b" exampleFile mediaWorld
          "provider_config ?p" "provider_client ?p" ?b ?p]
    by (simp add: b p Let_def truthy_def example_key client_url_blobClientOf
        generateSasUrl_blobClientOf example_plain_url example_signed_url decimal_3000
        Date_3000_0_examples)
  have 3: "url (fst (snd (upload_001 ?c exampleFile mediaWorld)))
     = ''https://cdn.example.com/media/assets/abc.png?sp=r&se=32503680000000&sig=SIGNED-BY-acc''"
    and 4: "url (fst (snd (upload ?d exampleFile mediaWorld)))
     = ''https://cdn.example.com/media/assets/abc.png''"
    using handleUpload_url_by_access_type
      [of "provider_config ?c" "provider_client ?c" exampleFile mediaWorld
          "provider_config ?d" "provider_client ?d" ?c ?d]
    by (simp_all add: c d trim_examples Let_def truthy_def toString_def example_key
        client_url_blobClientOf generateSasUrl_blobClientOf example_plain_url example_signed_url
        decimal_3000 Date_3000_0_examples example_replace_cdn example_replace_cdn_signed)
  have 6: "fst (snd (upload_001 ?e exampleFile mediaWorld)) = exampleFile"
    and 7: "fst (snd (upload ?f exampleFile mediaWorld)) = exampleFile"
    using handleUpload_url_by_access_type
      [of "provider_config ?e" "provider_client ?e" exampleFile mediaWorld
          "provider_config ?f" "provider_client ?f" ?e ?f]
    by (simp_all add: example_unnamed example_unnamed_001)
  show ?thesis
    unfolding 1 2 3 4 5 6 7 by simp
qed

text \<open>
  The claim as stated fails in \<open>src/index.ts\<close>: with the access type \<open>private\<close>
  configured, \<open>upload\<close> and \<open>uploadStream\<close> write the plain URL of the blob.
\<close>

theorem upload_index_ts_never_signs:
  "raw_containerAccessType (exampleRaw\<lparr>raw_containerAccessType := Some Private\<rparr>) = Some Private
   \<and> url (fst (snd (upload
        (fst (projr (init exampleSDK (exampleRaw\<lparr>raw_containerAccessType := Some Private\<rparr>))))
        exampleFile mediaWorld)))
     = ''https://acc.blob.core.windows.net/media/assets/abc.png''
   \<and> url (fst (snd (uploadStream_provider
        (fst (projr (init exampleSDK (exampleRaw\<lparr>raw_containerAccessType := Some Private\<rparr>))))
        exampleFile mediaWorld)))
     = ''https://acc.blob.core.windows.net/media/assets/abc.png''
   \<and> client_url (blobClientOf
        (provider_client
           (fst (projr (init exampleSDK (exampleRaw\<lparr>raw_containerAccessType := Some Private\<rparr>)))))
        ''media'' ''assets/abc.png'')
     = ''https://acc.blob.core.windows.net/media/assets/abc.png''"
  by (simp add: upload_def uploadStream_provider_def example_providers(5,6) handleUpload_named
      Let_def truthy_def example_key client_url_blobClientOf example_plain_url)

text \<open>
  With a configured container name, a CDN base URL that is not empty and contains no
  dollar sign, and a blob URL that starts with the service base URL, the URL written is
  the CDN base URL followed by the rest of the blob URL, for plain and for signed URLs.
  The SDK does not promise that the blob URL starts with the service base URL as the
  configuration spells it; where it does not, the URL is written as the SDK gave it.
\<close>

lemma handleUpload_cdn_rewrite:
  assumes "containerName config \<noteq> []"
    and "serviceBaseURL config = Some sbu" and "cdnBaseURL config = Some cdn" and "cdn \<noteq> []"
    and "CHR ''$'' \<notin> set cdn"
    and "client_url (blobClientOf blobSvcClient (containerName config)
           (getFileName (defaultPath config) file)) = sbu @ rest"
  shows "url (fst (snd (handleUpload config blobSvcClient file w))) = cdn @ rest"
  using assms(2-)
  by (simp add: handleUpload_named [OF assms(1)] Let_def truthy_def toString_def replace_prefix)

lemma handleUpload_001_cdn_rewrite:
  assumes "containerName config \<noteq> []"
    and "serviceBaseURL config = Some sbu" and "cdnBaseURL config = Some cdn" and "cdn \<noteq> []"
    and "CHR ''$'' \<notin> set cdn"
    and "client_url (blobClientOf blobSvcClient (containerName config)
           (getFileName (defaultPath config) file)) = sbu @ rest"
    and "generateSasUrl (blobClientOf blobSvcClient (containerName config)
           (getFileName (defaultPath config) file))
           \<lparr>permissions = {Read}, expiresOn = Date_3000_0 w\<rparr> = sbu @ rest @ query"
  shows "url (fst (snd (handleUpload_001 config blobSvcClient file w))) =
           (if containerAccessType config = Some Private then cdn @ rest @ query else cdn @ rest)"
  using assms(2-)
  by (simp add: handleUpload_001_named [OF assms(1)] Let_def truthy_def toString_def replace_prefix)

text \<open>
  Claim C6, where the code departs from it. The CDN base URL is passed to \<open>replace\<close> as
  the replacement text, in which \<open>$&\<close> stands for the matched text. With the CDN base
  URL \<open>https://cdn.example.com/$&\<close> the URL written does not carry the CDN base URL in
  place of the service base URL: the service base URL is put back after the CDN host.
\<close>

theorem upload_cdn_substitution_pattern:
  "cdnBaseURL (provider_config (fst (projr (init exampleSDK
       (exampleRaw\<lparr>raw_cdnBaseURL := Some ''https://cdn.example.com/$&''\<rparr>)))))
     = Some ''https://cdn.example.com/$&''
   \<and> url (fst (snd (upload
          (fst (projr (init exampleSDK
             (exampleRaw\<lparr>raw_cdnBaseURL := Some ''https://cdn.example.com/$&''\<rparr>))))
          exampleFile mediaWorld)))
     = ''https://cdn.example.com/https://acc.blob.core.windows.net/media/assets/abc.png''
   \<and> url (fst (snd (upload_001
          (fst (projr (init_001 exampleSDK
                 (exampleRaw\<lparr>raw_cdnBaseURL := Some ''https://cdn.example.com/$&'',
                             raw_containerAccessType := Some Blob\<rparr>))))
          exampleFile mediaWorld)))
     = ''https://cdn.example.com/https://acc.blob.core.windows.net/media/assets/abc.png''"
proof -
  let ?c = "fst (projr (init_001 exampleSDK
                 (exampleRaw\<lparr>raw_cdnBaseURL := Some ''https://cdn.example.com/$&'',
                             raw_containerAccessType := Some Blob\<rparr>)))"
  let ?i = "fst (projr (init exampleSDK
                 (exampleRaw\<lparr>raw_cdnBaseURL := Some ''https://cdn.example.com/$&''\<rparr>)))"
  note c = example_providers_001(5,6) [where c = "''https://cdn.example.com/$&''" and t = "Some Blob"]
  note i = example_providers(3,4) [where c = "''https://cdn.example.com/$&''"]
  have 1: "url (fst (snd (upload_001 ?c exampleFile mediaWorld))) =
     ''https://cdn.example.com/https://acc.blob.core.windows.net/media/assets/abc.png''"
    by (simp add: upload_001_def handleUpload_001_named c trim_examples Let_def truthy_def
        toString_def example_key client_url_blobClientOf example_plain_url example_replace_dollar)
  have 2: "url (fst (snd (upload ?i exampleFile mediaWorld))) =
     ''https://cdn.example.com/https://acc.blob.core.windows.net/media/assets/abc.png''"
    by (simp add: upload_def handleUpload_named i trim_examples Let_def truthy_def toString_def
        example_key client_url_blobClientOf example_plain_url example_replace_dollar)
  have 3: "cdnBaseURL (provider_config ?i) = Some ''https://cdn.example.com/$&''"
    by (simp add: i trim_examples)
  show ?thesis using 1 2 3 by simp
qed

section \<open>Normalisation\<close>

text \<open>
  What \<open>init\<close> does to the configuration: every string setting is trimmed, a missing
  one becomes the empty string, \<open>createContainerIfNotExists\<close> is true unless given,
  the service URL is \<open>https://{account}.blob.core.windows.net\<close> unless a non-blank
  one is given. The second variant does the same and copies the access type as it is.
  The normalisation itself cannot fail; \<open>init\<close> as a whole throws the error of the SDK
  when the container is to be created and its name is empty, and otherwise returns a
  provider that holds the normalised configuration.
\<close>

lemma init_normalises:
  "account (init_config raw) = trimParam (raw_account raw)
   \<and> accountKey (init_config raw) = trimParam (raw_accountKey raw)
   \<and> containerName (init_config raw) = trimParam (raw_containerName raw)
   \<and> defaultPath (init_config raw) = trimParam (raw_defaultPath raw)
   \<and> cdnBaseURL (init_config raw) = Some (trimParam (raw_cdnBaseURL raw))
   \<and> (trimParam (raw_serviceBaseURL raw) \<noteq> [] \<longrightarrow>
        serviceBaseURL (init_config raw) = Some (trimParam (raw_serviceBaseURL raw)))
   \<and> (trimParam (raw_serviceBaseURL raw) = [] \<longrightarrow>
        serviceBaseURL (init_config raw) =
          Some (''https://'' @ trimParam (raw_account raw) @ ''.blob.core.windows.net''))
   \<and> (raw_createContainerIfNotExists raw = None \<longrightarrow>
        createContainerIfNotExists (init_config raw) = Some True)
   \<and> (\<forall>b. raw_createContainerIfNotExists raw = Some b \<longrightarrow>
        createContainerIfNotExists (init_config raw) = Some b)
   \<and> trimParam None = []
   \<and> init_config_001 raw =
       Config.extend (init_config raw) \<lparr>containerAccessType = raw_containerAccessType raw\<rparr>
   \<and> (case init azure raw of
         Inl e \<Rightarrow> e = Error ''Unable to extract containerName with provided information.''
                 \<and> raw_createContainerIfNotExists raw \<noteq> Some False
                 \<and> trimParam (raw_containerName raw) = []
       | Inr (p, pending) \<Rightarrow> provider_config p = init_config raw)
   \<and> (case init_001 azure raw of
         Inl e \<Rightarrow> e = Error ''Unable to extract containerName with provided information.''
                 \<and> raw_createContainerIfNotExists raw \<noteq> Some False
                 \<and> trimParam (raw_containerName raw) = []
       | Inr (p, pending) \<Rightarrow> provider_config p = init_config_001 raw)"
  by (simp add: init_eq init_001_eq init_config_def init_config_001_def trimParam_simps
      Config.extend_def)

text \<open>
  Claim C8, where the code departs from it. The access type is not defaulted: the
  normalised configuration has the access type of the raw one, so none when none was
  given. With none given, the container is requested with no public access, as for
  \<open>private\<close>, but upload writes the plain URL, where for \<open>private\<close> it writes the
  signed one.
\<close>

theorem init_001_access_type_not_defaulted:
  "containerAccessType (init_config_001 raw) = raw_containerAccessType raw
   \<and> (case init_001 azure raw of
         Inl e \<Rightarrow> e = Error ''Unable to extract containerName with provided information.''
       | Inr (p, pending) \<Rightarrow>
           containerAccessType (provider_config p) = raw_containerAccessType raw)
   \<and> raw_containerAccessType exampleRaw = None
   \<and> containerAccessType (provider_config (fst (projr (init_001 exampleSDK exampleRaw)))) = None
   \<and> snd (projr (init_001 exampleSDK exampleRaw)) = [CreateIfNotExists ''media'' None]
   \<and> url (fst (snd (upload_001 (fst (projr (init_001 exampleSDK exampleRaw)))
          exampleFile mediaWorld)))
     = ''https://acc.blob.core.windows.net/media/assets/abc.png''
   \<and> url (fst (snd (upload_001
          (fst (projr (init_001 exampleSDK (exampleRaw\<lparr>raw_containerAccessType := Some Private\<rparr>))))
          exampleFile mediaWorld)))
     = ''https://acc.blob.core.windows.net/media/assets/abc.png?sp=r&se=32503680000000&sig=SIGNED-BY-acc''"
proof -
  let ?u = "fst (projr (init_001 exampleSDK exampleRaw))"
  let ?p = "fst (projr (init_001 exampleSDK (exampleRaw\<lparr>raw_containerAccessType := Some Private\<rparr>)))"
  note u = example_providers_001(1,2)
  note p = example_providers_001(3,4) [of "Some Private"]
  have pending: "snd (projr (init_001 exampleSDK exampleRaw)) = [CreateIfNotExists ''media'' None]"
    by (simp add: example_init_001 [OF exampleRaw_updates(1)] accessOption_def)
  have 0: "containerAccessType (init_config_001 raw) = raw_containerAccessType raw"
    by (simp add: init_config_001_def)
  have 1: "url (fst (snd (upload_001 ?u exampleFile mediaWorld))) =
     ''https://acc.blob.core.windows.net/media/assets/abc.png''"
    by (simp add: upload_001_def handleUpload_001_named u Let_def truthy_def example_key
        client_url_blobClientOf example_plain_url)
  have 2: "url (fst (snd (upload_001 ?p exampleFile mediaWorld))) =
     ''https://acc.blob.core.windows.net/media/assets/abc.png?sp=r&se=32503680000000&sig=SIGNED-BY-acc''"
    by (simp add: upload_001_def handleUpload_001_named p Let_def truthy_def example_key
        generateSasUrl_blobClientOf example_signed_url decimal_3000 Date_3000_0_examples)
  have 3: "case init_001 azure raw of
         Inl e \<Rightarrow> e = Error ''Unable to extract containerName with provided information.''
       | Inr (p, pending) \<Rightarrow>
           containerAccessType (provider_config p) = raw_containerAccessType raw"
    by (simp add: init_001_eq 0)
  have 4: "raw_containerAccessType exampleRaw = None" by (simp add: exampleRaw_def)
  show ?thesis
    using 0 1 2 3 4 pending by (simp add: u)
qed

end
